theory Spec2Isabelle
  imports Complex_Main
begin

section \<open>Numbers: floats with their special values\<close>

text \<open>
  The columns of the data frames hold IEEE double precision numbers. They are modelled
  with their three special values written out and with the finite values idealised as
  real numbers: no rounding, no overflow, and a single (positive) zero. Every arithmetic
  operation below follows the IEEE table on \<open>NaN\<close> and the infinities, which
  is what numpy computes (numpy never raises on a division by zero; the script silences
  the warning).
\<close>

datatype fl = NaN | NInf | Fin real | PInf

fun notna :: "fl \<Rightarrow> bool" where
  "notna NaN = False"
| "notna _ = True"

fun isfinite :: "fl \<Rightarrow> bool" where
  "isfinite (Fin _) = True"
| "isfinite _ = False"

text \<open>\<open>a < b\<close>: false as soon as one side is \<open>NaN\<close>.\<close>

fun flt :: "fl \<Rightarrow> fl \<Rightarrow> bool" where
  "flt NaN _ = False"
| "flt _ NaN = False"
| "flt (Fin a) (Fin b) = (a < b)"
| "flt NInf NInf = False"
| "flt NInf _ = True"
| "flt PInf _ = False"
| "flt (Fin _) PInf = True"
| "flt (Fin _) NInf = False"

text \<open>\<open>a > b\<close> and \<open>a <= b\<close>.\<close>

definition fgt :: "fl \<Rightarrow> fl \<Rightarrow> bool" where
  "fgt a b = flt b a"

fun fle :: "fl \<Rightarrow> fl \<Rightarrow> bool" where
  "fle NaN _ = False"
| "fle _ NaN = False"
| "fle (Fin a) (Fin b) = (a \<le> b)"
| "fle NInf _ = True"
| "fle PInf PInf = True"
| "fle PInf _ = False"
| "fle (Fin _) PInf = True"
| "fle (Fin _) NInf = False"

text \<open>Negation, sum, difference, product and quotient.\<close>

fun fneg :: "fl \<Rightarrow> fl" where
  "fneg NaN = NaN"
| "fneg NInf = PInf"
| "fneg (Fin a) = Fin (- a)"
| "fneg PInf = NInf"

fun fadd :: "fl \<Rightarrow> fl \<Rightarrow> fl" where
  "fadd NaN _ = NaN"
| "fadd _ NaN = NaN"
| "fadd (Fin a) (Fin b) = Fin (a + b)"
| "fadd PInf NInf = NaN"
| "fadd NInf PInf = NaN"
| "fadd PInf _ = PInf"
| "fadd _ PInf = PInf"
| "fadd NInf _ = NInf"
| "fadd _ NInf = NInf"

definition fsub :: "fl \<Rightarrow> fl \<Rightarrow> fl" where
  "fsub a b = fadd a (fneg b)"

fun fmul :: "fl \<Rightarrow> fl \<Rightarrow> fl" where
  "fmul NaN _ = NaN"
| "fmul _ NaN = NaN"
| "fmul (Fin a) (Fin b) = Fin (a * b)"
| "fmul (Fin a) PInf = (if a = 0 then NaN else if 0 < a then PInf else NInf)"
| "fmul (Fin a) NInf = (if a = 0 then NaN else if 0 < a then NInf else PInf)"
| "fmul PInf (Fin b) = (if b = 0 then NaN else if 0 < b then PInf else NInf)"
| "fmul NInf (Fin b) = (if b = 0 then NaN else if 0 < b then NInf else PInf)"
| "fmul PInf PInf = PInf"
| "fmul NInf NInf = PInf"
| "fmul PInf NInf = NInf"
| "fmul NInf PInf = NInf"

text \<open>
  A finite number divided by zero is an infinity of its sign, \<open>0 / 0\<close> is
  \<open>NaN\<close>; a finite number divided by an infinity is \<open>0\<close>; an infinity
  divided by an infinity is \<open>NaN\<close>.
\<close>

fun fdiv :: "fl \<Rightarrow> fl \<Rightarrow> fl" where
  "fdiv NaN _ = NaN"
| "fdiv _ NaN = NaN"
| "fdiv (Fin a) (Fin b) =
     (if b = 0 then (if a = 0 then NaN else if 0 < a then PInf else NInf) else Fin (a / b))"
| "fdiv (Fin _) _ = Fin 0"
| "fdiv PInf (Fin b) = (if 0 \<le> b then PInf else NInf)"
| "fdiv NInf (Fin b) = (if 0 \<le> b then NInf else PInf)"
| "fdiv _ _ = NaN"

definition fmin :: "fl \<Rightarrow> fl \<Rightarrow> fl" where
  "fmin a b = (if flt b a then b else a)"

definition fmax :: "fl \<Rightarrow> fl \<Rightarrow> fl" where
  "fmax a b = (if flt a b then b else a)"

text \<open>The number a finite float stands for (0 for the special values).\<close>

fun realpart :: "fl \<Rightarrow> real" where
  "realpart (Fin a) = a"
| "realpart _ = 0"

text \<open>
  \<open>np.power(x, y)\<close> for a float \<open>x\<close> and a positive finite exponent
  \<open>y\<close> (the scripts pass \<open>245 * 25 / n\<close>): a negative base has a power
  only for an integer exponent.
\<close>

definition np_power :: "fl \<Rightarrow> real \<Rightarrow> fl" where
  "np_power x y =
     (case x of
        NaN \<Rightarrow> NaN
      | Fin a \<Rightarrow>
          (if 0 < a then Fin (a powr y)
           else if a = 0 then Fin 0
           else if y \<in> \<int> then Fin ((if even \<lfloor>y\<rfloor> then 1 else - 1) * ((- a) powr y))
           else NaN)
      | PInf \<Rightarrow> PInf
      | NInf \<Rightarrow> (if y \<in> \<int> \<and> odd \<lfloor>y\<rfloor> then NInf else PInf))"

section \<open>The pandas operations the scripts call\<close>

text \<open>
  Library code, modelled from its behaviour in the pandas versions the scripts run on
  (before 3.0). Reductions and accumulations skip \<open>NaN\<close> (\<open>skipna=True\<close>).
\<close>

definition dropna :: "fl list \<Rightarrow> fl list" where
  "dropna xs = filter notna xs"

text \<open>\<open>Series.shift(1)\<close>: every value moves one bar later, bar 0 is \<open>NaN\<close>.\<close>

definition shift1 :: "fl list \<Rightarrow> fl list" where
  "shift1 xs = take (length xs) (NaN # xs)"

text \<open>\<open>Series.ffill()\<close>: a \<open>NaN\<close> takes the last value before it that is not.\<close>

fun ffill_from :: "fl \<Rightarrow> fl list \<Rightarrow> fl list" where
  "ffill_from prev [] = []"
| "ffill_from prev (x # xs) =
     (if notna x then x # ffill_from x xs else prev # ffill_from prev xs)"

definition ffill :: "fl list \<Rightarrow> fl list" where
  "ffill xs = ffill_from NaN xs"

text \<open>
  \<open>Series.pct_change()\<close>: the column is forward-filled first (the default
  \<open>fill_method='pad'\<close>), then \<open>data / data.shift(1) - 1\<close>.
\<close>

definition pct_change :: "fl list \<Rightarrow> fl list" where
  "pct_change xs =
     (let d = ffill xs in map2 (\<lambda>a b. fsub (fdiv a b) (Fin 1)) d (shift1 d))"

text \<open>
  \<open>Series.cumprod()\<close> and \<open>Series.cummax()\<close>: a \<open>NaN\<close> stays where it
  is and does not enter the running product or maximum.
\<close>

fun cumprod_from :: "fl \<Rightarrow> fl list \<Rightarrow> fl list" where
  "cumprod_from acc [] = []"
| "cumprod_from acc (x # xs) =
     (if notna x then fmul acc x # cumprod_from (fmul acc x) xs else NaN # cumprod_from acc xs)"

definition cumprod :: "fl list \<Rightarrow> fl list" where
  "cumprod xs = cumprod_from (Fin 1) xs"

fun cummax_from :: "fl \<Rightarrow> fl list \<Rightarrow> fl list" where
  "cummax_from acc [] = []"
| "cummax_from acc (x # xs) =
     (if notna x then fmax acc x # cummax_from (fmax acc x) xs else NaN # cummax_from acc xs)"

definition cummax :: "fl list \<Rightarrow> fl list" where
  "cummax xs = cummax_from NInf xs"

text \<open>
  \<open>Series.prod()\<close>, \<open>Series.min()\<close>, \<open>Series.max()\<close>: over the values
  that are not \<open>NaN\<close>; the empty product is 1, the empty minimum and maximum are
  \<open>NaN\<close>.
\<close>

definition series_prod :: "fl list \<Rightarrow> fl" where
  "series_prod xs = fold (\<lambda>x acc. fmul acc x) (dropna xs) (Fin 1)"

definition series_min :: "fl list \<Rightarrow> fl" where
  "series_min xs = (case dropna xs of [] \<Rightarrow> NaN | v # vs \<Rightarrow> fold (\<lambda>x acc. fmin acc x) vs v)"

definition series_max :: "fl list \<Rightarrow> fl" where
  "series_max xs = (case dropna xs of [] \<Rightarrow> NaN | v # vs \<Rightarrow> fold (\<lambda>x acc. fmax acc x) vs v)"

text \<open>
  The sample standard deviation (\<open>ddof=1\<close>) of a list of numbers, and
  \<open>Series.std()\<close>: \<open>NaN\<close> for fewer than two values and when a value is
  infinite.
\<close>

definition sample_std :: "real list \<Rightarrow> real" where
  "sample_std rs =
     (let m = sum_list rs / real (length rs)
      in sqrt (sum_list (map (\<lambda>r. (r - m)\<^sup>2) rs) / real (length rs - 1)))"

definition series_std :: "fl list \<Rightarrow> fl" where
  "series_std xs =
     (let vs = dropna xs
      in if length vs < 2 \<or> \<not> list_all isfinite vs then NaN
         else Fin (sample_std (map realpart vs)))"

text \<open>
  \<open>Series.rolling(window=W)\<close>: the window of bar \<open>i\<close> is the bars
  \<open>max(0, i + 1 - W) .. i\<close>, and \<open>min_periods\<close> is \<open>W\<close>. Infinite
  values are turned into \<open>NaN\<close> first. \<open>mean()\<close> is computed as pandas
  does, in one pass that keeps the number of valid observations in the window and their
  sum: entering bar \<open>i\<close> removes the value that left the window and adds the
  new one. (The compensated summation and the sign fix of the original only repair
  rounding; they change nothing on exact numbers.)
\<close>

definition prep_values :: "fl list \<Rightarrow> fl list" where
  "prep_values xs = map (\<lambda>v. if isfinite v then v else NaN) xs"

definition add_mean :: "fl \<Rightarrow> nat \<times> real \<Rightarrow> nat \<times> real" where
  "add_mean v st = (case v of Fin x \<Rightarrow> (fst st + 1, snd st + x) | _ \<Rightarrow> st)"

definition remove_mean :: "fl \<Rightarrow> nat \<times> real \<Rightarrow> nat \<times> real" where
  "remove_mean v st = (case v of Fin x \<Rightarrow> (fst st - 1, snd st - x) | _ \<Rightarrow> st)"

definition calc_mean :: "nat \<Rightarrow> nat \<times> real \<Rightarrow> fl" where
  "calc_mean minp st =
     (if minp \<le> fst st \<and> 0 < fst st then Fin (snd st / real (fst st)) else NaN)"

definition roll_mean_step ::
  "nat \<Rightarrow> fl list \<Rightarrow> nat \<Rightarrow> (nat \<times> real) \<times> fl list \<Rightarrow> (nat \<times> real) \<times> fl list" where
  "roll_mean_step W vs i acc =
     (let st1 = (if W \<le> i then remove_mean (vs ! (i - W)) (fst acc) else fst acc);
          st2 = add_mean (vs ! i) st1
      in (st2, snd acc @ [calc_mean W st2]))"

definition rolling_mean :: "nat \<Rightarrow> fl list \<Rightarrow> fl list" where
  "rolling_mean W xs =
     (let vs = prep_values xs
      in snd (fold (roll_mean_step W vs) [0..<length vs] ((0, 0), [])))"

text \<open>
  \<open>rolling(window=W).std()\<close>: the sample standard deviation of the window, once
  it holds \<open>W\<close> valid values (and more than one).
\<close>

definition rolling_std :: "nat \<Rightarrow> fl list \<Rightarrow> fl list" where
  "rolling_std W xs =
     (let vs = prep_values xs
      in map (\<lambda>i. let w = filter isfinite (map (\<lambda>j. vs ! j) [i + 1 - W..<i + 1])
                  in if W \<le> length w \<and> 1 < length w then Fin (sample_std (map realpart w))
                     else NaN)
           [0..<length vs])"

section \<open>The data frame\<close>

text \<open>
  \<open>stock_data\<close> is a pandas DataFrame: named columns of one common length, the
  number of bars. It is a record of its columns; a column that has not been written yet
  is the empty list, and \<open>len(stock_data)\<close> is the length of \<open>close\<close>,
  the column every frame is loaded with. The two scripts share the frame: the first
  block of columns is written by both, the second by \<open>backtest_ma.py\<close> and the
  third by \<open>backtest_ma_portfolio.py\<close>.

  Both scripts write single cells as \<open>stock_data[col].iloc[i] = v\<close>. The model
  takes the write to reach the frame, as it does in the pandas versions the scripts run
  on (before copy-on-write).
\<close>

record frame =
  close :: "fl list"
  SMA_20 :: "fl list"
  SMA_50 :: "fl list"
  Signal :: "int list"
  Position :: "int list"
  Stock_Returns :: "fl list"
  Strategy_Returns :: "fl list"
  Cumulative_Stock_Returns :: "fl list"
  Cumulative_Strategy_Returns :: "fl list"
  Daily_Returns :: "fl list"
  Volatility :: "fl list"
  Position_Size :: "fl list"
  Portfolio_Value :: "fl list"
  Invested_Capital :: "fl list"
  Portfolio_Returns :: "fl list"

text \<open>
  \<open>load_and_prepare_data\<close>: the rows of one stock, in the order of the file.
  The input table is a list of rows \<open>(stock_name, close)\<close>; the result is a
  fresh frame holding the \<open>close\<close> column only.
\<close>

definition frame_of :: "fl list \<Rightarrow> frame" where
  "frame_of cl =
     \<lparr>close = cl, SMA_20 = [], SMA_50 = [], Signal = [], Position = [],
      Stock_Returns = [], Strategy_Returns = [], Cumulative_Stock_Returns = [],
      Cumulative_Strategy_Returns = [], Daily_Returns = [], Volatility = [],
      Position_Size = [], Portfolio_Value = [], Invested_Capital = [],
      Portfolio_Returns = []\<rparr>"

definition load_and_prepare_data :: "(string \<times> fl) list \<Rightarrow> string \<Rightarrow> frame" where
  "load_and_prepare_data data stock_name =
     frame_of (map snd (filter (\<lambda>row. fst row = stock_name) data))"

section \<open>Moving average calculator\<close>

text \<open>\<open>calculate_moving_averages\<close> (the same text in both scripts).\<close>

definition calculate_moving_averages :: "frame \<Rightarrow> frame" where
  "calculate_moving_averages df =
     df\<lparr>SMA_20 := rolling_mean 20 (close df), SMA_50 := rolling_mean 50 (close df)\<rparr>"

section \<open>Signal generator\<close>

text \<open>
  \<open>generate_signals\<close> (the same text in both scripts): the columns
  \<open>Signal\<close> and \<open>Position\<close> are set to 0, then the loop over
  \<open>range(1, len(stock_data))\<close> writes \<open>Signal[i]\<close> on a crossing.
  \<open>cross_up\<close> and \<open>cross_down\<close> are the conditions of the
  \<open>if\<close> and of the \<open>elif\<close>; \<open>signal_step\<close> is one
  iteration of the loop.
\<close>

definition cross_up :: "frame \<Rightarrow> nat \<Rightarrow> bool" where
  "cross_up df i \<longleftrightarrow>
     fgt (SMA_20 df ! i) (SMA_50 df ! i) \<and> flt (SMA_20 df ! (i - 1)) (SMA_50 df ! (i - 1))"

definition cross_down :: "frame \<Rightarrow> nat \<Rightarrow> bool" where
  "cross_down df i \<longleftrightarrow>
     flt (SMA_20 df ! i) (SMA_50 df ! i) \<and> fgt (SMA_20 df ! (i - 1)) (SMA_50 df ! (i - 1))"

definition signal_step :: "frame \<Rightarrow> nat \<Rightarrow> int list \<Rightarrow> int list" where
  "signal_step df i sig =
     (if cross_up df i then sig[i := 1]
      else if cross_down df i then sig[i := - 1]
      else sig)"

definition generate_signals :: "frame \<Rightarrow> frame" where
  "generate_signals df =
     (let n = length (close df);
          df1 = df\<lparr>Signal := replicate n 0, Position := replicate n 0\<rparr>
      in df1\<lparr>Signal := fold (signal_step df1) [1..<n] (Signal df1)\<rparr>)"

section \<open>Position tracker (backtest_ma.py)\<close>

text \<open>One iteration of the loop of \<open>update_position\<close>, and the loop.\<close>

definition position_step :: "frame \<Rightarrow> nat \<Rightarrow> int list \<Rightarrow> int list" where
  "position_step df i pos =
     (if Signal df ! i = 1 then pos[i := 1]
      else if Signal df ! i = - 1 then pos[i := 0]
      else pos[i := pos ! (i - 1)])"

definition update_position :: "frame \<Rightarrow> frame" where
  "update_position df =
     df\<lparr>Position := fold (position_step df) [1..<length (close df)] (Position df)\<rparr>"

section \<open>Returns and metrics of the simple variant (backtest_ma.py)\<close>

text \<open>
  What the scripts raise: \<open>245 * 25 / len(...)\<close> divides two Python integers,
  and \<open>.iloc[-1]\<close> and \<open>.iloc[0]\<close> index a column that may be empty.
  Nothing else in the two pipelines raises: the numpy operations return \<open>NaN\<close>
  or an infinity instead.
\<close>

datatype error = ZeroDivisionError | IndexError

definition calculate_returns :: "frame \<Rightarrow> frame" where
  "calculate_returns df =
     (let stock_returns = pct_change (close df);
          strategy_returns =
            map2 fmul stock_returns (shift1 (map (\<lambda>p. Fin (real_of_int p)) (Position df)))
      in df\<lparr>Stock_Returns := stock_returns,
             Strategy_Returns := strategy_returns,
             Cumulative_Stock_Returns := cumprod (map (fadd (Fin 1)) stock_returns),
             Cumulative_Strategy_Returns := cumprod (map (fadd (Fin 1)) strategy_returns)\<rparr>)"

text \<open>
  \<open>np.power((1 + R).prod(), (245 * 25) / n) - 1\<close>, the expression both metrics
  functions annualize a return column with; \<open>n\<close> is the length each of them
  passes.
\<close>

definition annualized :: "fl list \<Rightarrow> nat \<Rightarrow> error + fl" where
  "annualized R n =
     (if n = 0 then Inl ZeroDivisionError
      else Inr (fsub (np_power (series_prod (map (fadd (Fin 1)) R)) (6125 / real n)) (Fin 1)))"

text \<open>
  The three lines of the drawdown, the same in both scripts:
  \<open>rolling_max = V.cummax()\<close>, \<open>daily_drawdown = V / rolling_max - 1.0\<close>,
  \<open>max_drawdown = daily_drawdown.min()\<close>.
\<close>

definition max_drawdown :: "fl list \<Rightarrow> fl" where
  "max_drawdown V =
     (let rolling_max = cummax V;
          daily_drawdown = map2 (\<lambda>v m. fsub (fdiv v m) (Fin 1)) V rolling_max
      in series_min daily_drawdown)"

text \<open>
  The metrics dictionary: the stock name, and the numeric entries under their keys, in
  the order of the source.
\<close>

type_synonym metrics = "string \<times> (string \<times> fl) list"

text \<open>\<open>calculate_performance_metrics\<close> of \<open>backtest_ma.py\<close>.\<close>

definition calculate_performance_metrics :: "string \<Rightarrow> frame \<Rightarrow> error + metrics" where
  "calculate_performance_metrics stock_name df =
     (case annualized (Strategy_Returns df) (length (close df)) of
        Inl e \<Rightarrow> Inl e
      | Inr annualized_strategy_returns \<Rightarrow>
     (case annualized (Stock_Returns df) (length (close df)) of
        Inl e \<Rightarrow> Inl e
      | Inr annualized_stock_returns \<Rightarrow>
          (let strategy_volatility = fmul (series_std (Strategy_Returns df)) (Fin (sqrt 6125));
               stock_volatility = fmul (series_std (Stock_Returns df)) (Fin (sqrt 6125));
               risk_free_rate = Fin (6 / 100);
               sharpe_ratio =
                 fdiv (fsub annualized_strategy_returns risk_free_rate) strategy_volatility
           in Inr (stock_name,
                [(''Annualized Strategy Returns'', annualized_strategy_returns),
                 (''Annualized Stock Returns'', annualized_stock_returns),
                 (''Strategy Volatility'', strategy_volatility),
                 (''Stock Volatility'', stock_volatility),
                 (''Sharpe Ratio'', sharpe_ratio),
                 (''Maximum Drawdown'', max_drawdown (Cumulative_Strategy_Returns df))]))))"

definition run_strategy :: "(string \<times> fl) list \<Rightarrow> string \<Rightarrow> error + metrics" where
  "run_strategy data stock_name =
     calculate_performance_metrics stock_name
       (calculate_returns
         (update_position
           (generate_signals
             (calculate_moving_averages (load_and_prepare_data data stock_name)))))"

section \<open>Position sizer and portfolio simulator (backtest_ma_portfolio.py)\<close>

definition calculate_volatility :: "frame \<Rightarrow> nat \<Rightarrow> frame" where
  "calculate_volatility df window =
     (let df1 = df\<lparr>Daily_Returns := pct_change (close df)\<rparr>
      in df1\<lparr>Volatility :=
               map (\<lambda>s. fmul s (Fin (sqrt 6125))) (rolling_std window (Daily_Returns df1))\<rparr>)"

text \<open>
  \<open>adjust_position_size\<close>: \<open>.iloc[-1]\<close> raises on a frame without bars;
  the scalar computed from the last volatility is written to every bar of
  \<open>Position Size\<close>.
\<close>

definition adjust_position_size :: "frame \<Rightarrow> fl \<Rightarrow> fl \<Rightarrow> error + frame" where
  "adjust_position_size df initial_capital fixed_fraction =
     (let df1 = calculate_volatility df 20
      in if Volatility df1 = [] then Inl IndexError
         else
           (let current_volatility = last (Volatility df1);
                normalized_volatility = fdiv (Fin 1) current_volatility;
                normalized_volatility_scaled =
                  fdiv normalized_volatility (series_max (Volatility df1))
            in Inr (df1\<lparr>Position_Size :=
                     replicate (length (close df1))
                       (fmul (fmul initial_capital fixed_fraction)
                          normalized_volatility_scaled)\<rparr>)))"

text \<open>
  One iteration of the loop of \<open>simulate_trades\<close>. The state is the local
  variable \<open>capital\<close> and the two columns the loop writes,
  \<open>Portfolio Value\<close> and \<open>Invested Capital\<close>.
\<close>

definition trade_step ::
  "frame \<Rightarrow> nat \<Rightarrow> fl \<times> fl list \<times> fl list \<Rightarrow> fl \<times> fl list \<times> fl list" where
  "trade_step df i st =
     (case st of (capital, pv, ic) \<Rightarrow>
        (let (capital1, ic1) =
               (if Signal df ! i = 1 then
                  (let num_shares = fdiv capital (close df ! i);
                       cost = fmul num_shares (close df ! i)
                   in if fle cost capital then (fsub capital cost, ic[i := cost])
                      else (capital, ic))
                else if Signal df ! i = - 1 then
                  (fadd capital (ic ! (i - 1)), ic[i := Fin 0])
                else (capital, ic))
         in (capital1,
             pv[i := fadd capital1 (if notna (ic1 ! i) then ic1 ! i else Fin 0)],
             ic1)))"

text \<open>
  The state of the loop after the bars \<open>1 .. k - 1\<close>; with
  \<open>k = len(stock_data)\<close> it is the state the loop ends in.
\<close>

definition trade_loop :: "frame \<Rightarrow> fl \<Rightarrow> nat \<Rightarrow> fl \<times> fl list \<times> fl list" where
  "trade_loop df initial_capital k =
     fold (trade_step df) [1..<k]
       (initial_capital,
        (replicate (length (close df)) NaN)[0 := initial_capital],
        (replicate (length (close df)) NaN)[0 := Fin 0])"

definition simulate_trades :: "frame \<Rightarrow> fl \<Rightarrow> error + frame" where
  "simulate_trades df initial_capital =
     (if close df = [] then Inl IndexError
      else
        (case trade_loop df initial_capital (length (close df)) of (capital, pv, ic) \<Rightarrow>
           Inr (df\<lparr>Portfolio_Value := pv,
                   Invested_Capital := ffill ic,
                   Portfolio_Returns := pct_change pv\<rparr>)))"

text \<open>\<open>calculate_performance_metrics\<close> of \<open>backtest_ma_portfolio.py\<close>.\<close>

definition calculate_performance_metrics_portfolio ::
  "string \<Rightarrow> frame \<Rightarrow> error + metrics" where
  "calculate_performance_metrics_portfolio stock_name df =
     (let portfolio_returns = dropna (Portfolio_Returns df)
      in case annualized portfolio_returns (length portfolio_returns) of
           Inl e \<Rightarrow> Inl e
         | Inr annualized_portfolio_returns \<Rightarrow>
             (let portfolio_volatility = fmul (series_std portfolio_returns) (Fin (sqrt 6125));
                  risk_free_rate = Fin (6 / 100);
                  sharpe_ratio =
                    fdiv (fsub annualized_portfolio_returns risk_free_rate) portfolio_volatility
              in Inr (stock_name,
                   [(''Annualized Portfolio Returns'', annualized_portfolio_returns),
                    (''Portfolio Volatility'', portfolio_volatility),
                    (''Sharpe Ratio'', sharpe_ratio),
                    (''Maximum Drawdown'', max_drawdown (Portfolio_Value df))])))"

definition update_performance_metrics_with_portfolio ::
  "string \<Rightarrow> frame \<Rightarrow> error + metrics" where
  "update_performance_metrics_with_portfolio stock_name df =
     (case calculate_performance_metrics_portfolio stock_name df of
        Inl e \<Rightarrow> Inl e
      | Inr m \<Rightarrow>
          (if Portfolio_Value df = [] then Inl IndexError
           else Inr (fst m, snd m @ [(''Final Portfolio Value'', last (Portfolio_Value df))])))"

definition run_strategy_with_enhancements ::
  "(string \<times> fl) list \<Rightarrow> string \<Rightarrow> fl \<Rightarrow> error + metrics" where
  "run_strategy_with_enhancements data stock_name initial_capital =
     (case adjust_position_size
             (generate_signals
               (calculate_moving_averages (load_and_prepare_data data stock_name)))
             initial_capital (Fin (1 / 10)) of
        Inl e \<Rightarrow> Inl e
      | Inr df \<Rightarrow>
          (case simulate_trades df initial_capital of
             Inl e \<Rightarrow> Inl e
           | Inr df' \<Rightarrow> update_performance_metrics_with_portfolio stock_name df'))"

text \<open>
  The batch loops of the two scripts: one run per stock name, in the order of first
  appearance (\<open>unique()\<close>); an exception of one run ends the loop.
\<close>

definition unique :: "'a list \<Rightarrow> 'a list" where
  "unique xs = rev (remdups (rev xs))"

fun run_each :: "(string \<Rightarrow> error + metrics) \<Rightarrow> string list \<Rightarrow> error + metrics list" where
  "run_each run [] = Inr []"
| "run_each run (name # names) =
     (case run name of
        Inl e \<Rightarrow> Inl e
      | Inr m \<Rightarrow> (case run_each run names of Inl e \<Rightarrow> Inl e | Inr ms \<Rightarrow> Inr (m # ms)))"

definition run_all_stocks :: "(string \<times> fl) list \<Rightarrow> error + metrics list" where
  "run_all_stocks data = run_each (run_strategy data) (unique (map fst data))"

definition run_all_stocks_with_enhancements ::
  "(string \<times> fl) list \<Rightarrow> fl \<Rightarrow> error + metrics list" where
  "run_all_stocks_with_enhancements data initial_capital =
     run_each (\<lambda>name. run_strategy_with_enhancements data name initial_capital)
       (unique (map fst data))"

section \<open>Reference quantities of the properties\<close>

text \<open>
  What the specification calls the trailing simple moving average: the arithmetic mean
  of the \<open>W\<close> values ending at bar \<open>i\<close>. It has a value when all of
  them are numbers, and is \<open>NaN\<close> when one of them is \<open>NaN\<close> or
  infinite.
\<close>

definition trailing_mean :: "nat \<Rightarrow> fl list \<Rightarrow> nat \<Rightarrow> fl" where
  "trailing_mean W xs i =
     (let w = map (\<lambda>j. xs ! j) [i + 1 - W..<i + 1]
      in if list_all isfinite w then Fin (sum_list (map realpart w) / real W) else NaN)"

text \<open>
  The state the one-pass mean is in after bar \<open>k - 1\<close>: the number of valid
  values among the bars \<open>k - W .. k - 1\<close> and their sum.
\<close>

definition win_state :: "nat \<Rightarrow> fl list \<Rightarrow> nat \<Rightarrow> nat \<times> real" where
  "win_state W vs k =
     (length (filter isfinite (map (\<lambda>j. vs ! j) [k - W..<k])),
      sum_list (map (\<lambda>j. realpart (vs ! j)) [k - W..<k]))"

text \<open>
  What a run of \<open>simulate_trades\<close> leaves of the portfolio: the three columns
  it writes, or its exception. \<open>cash_at\<close> is the value of the local variable
  \<open>capital\<close> at the end of the iteration for bar \<open>i\<close> (the initial
  capital at bar 0): the cash of that bar.
\<close>

definition portfolio_columns :: "error + frame \<Rightarrow> error + fl list \<times> fl list \<times> fl list" where
  "portfolio_columns r =
     (case r of Inl e \<Rightarrow> Inl e
      | Inr d \<Rightarrow> Inr (Portfolio_Value d, Invested_Capital d, Portfolio_Returns d))"

definition cash_at :: "frame \<Rightarrow> fl \<Rightarrow> nat \<Rightarrow> fl" where
  "cash_at df initial_capital i = fst (trade_loop df initial_capital (Suc i))"

text \<open>
  A value column is non-decreasing when its defined entries are, in their order.
\<close>

definition non_decreasing :: "fl list \<Rightarrow> bool" where
  "non_decreasing V = sorted_wrt fle (dropna V)"

text \<open>
  The drawdowns of a list of numbers whose running maximum so far is \<open>a\<close>.
\<close>

fun dd_real :: "real \<Rightarrow> real list \<Rightarrow> real list" where
  "dd_real a [] = []"
| "dd_real a (r # rs) = (r / max a r - 1) # dd_real (max a r) rs"

text \<open>
  The annualized return as the specification states it: the product of \<open>1 + r\<close>
  over the defined returns, to the power \<open>bars_per_year / |R|\<close> with
  \<open>|R|\<close> the number of defined returns, minus 1.
\<close>

definition annualized_return_spec :: "fl list \<Rightarrow> fl" where
  "annualized_return_spec R =
     fsub (np_power (series_prod (map (fadd (Fin 1)) (dropna R)))
             (6125 / real (length (dropna R)))) (Fin 1)"

text \<open>
  The entry of a metrics dictionary under a key, when the run returned one; and the
  \<open>Position Size\<close> column of the frame the sizer returned.
\<close>

definition field :: "string \<Rightarrow> error + metrics \<Rightarrow> fl option" where
  "field key r = (case r of Inl e \<Rightarrow> None | Inr m \<Rightarrow> map_of (snd m) key)"

definition position_sizes :: "error + frame \<Rightarrow> error + fl list" where
  "position_sizes r = (case r of Inl e \<Rightarrow> Inl e | Inr d \<Rightarrow> Inr (Position_Size d))"

text \<open>
  A series of 52 bars: 30 at the price 10, 20 at 9, then 100 and 110. The short average
  crosses above the long one at bar 50.
\<close>

definition prices52 :: "fl list" where
  "prices52 = replicate 30 (Fin 10) @ replicate 20 (Fin 9) @ [Fin 100, Fin 110]"

section \<open>Properties of the signal generator\<close>

lemma length_signal_step: "length (signal_step df i sig) = length sig"
  by (simp add: signal_step_def)

lemma length_fold_signal_step: "length (fold (signal_step df) js sig) = length sig"
  by (induction js arbitrary: sig) (simp_all add: length_signal_step)

lemma signal_step_nth:
  "j < length sig \<Longrightarrow> signal_step df i sig ! j =
     (if j = i then (if cross_up df i then 1 else if cross_down df i then - 1 else sig ! j)
      else sig ! j)"
  by (simp add: signal_step_def)

lemma fold_signal_step_nth:
  assumes "j < length sig"
  shows "fold (signal_step df) [Suc 0..<k] sig ! j =
     (if Suc 0 \<le> j \<and> j < k
      then (if cross_up df j then 1 else if cross_down df j then - 1 else sig ! j)
      else sig ! j)"
proof (induction k)
  case 0
  show ?case by simp
next
  case (Suc k)
  show ?case
  proof (cases "Suc 0 \<le> k")
    case False
    then show ?thesis by simp
  next
    case True
    let ?s = "fold (signal_step df) [Suc 0..<k] sig"
    have len: "j < length ?s"
      using assms by (simp add: length_fold_signal_step)
    have step: "fold (signal_step df) [Suc 0..<Suc k] sig = signal_step df k ?s"
      using True by simp
    show ?thesis
      unfolding step signal_step_nth [OF len] Suc.IH
      using True by auto
  qed
qed

lemma flt_asym: "flt a b \<Longrightarrow> \<not> flt b a"
  by (cases a; cases b) auto

lemma flt_irrefl: "\<not> flt a a"
  by (cases a) auto

lemma flt_NaN: "\<not> flt NaN b" "\<not> flt a NaN"
  by (cases a; simp)+

lemma cross_exclusive: "\<not> (cross_up df i \<and> cross_down df i)"
  using flt_asym by (auto simp: cross_up_def cross_down_def fgt_def)

lemma Signal_generate_signals:
  "Signal (generate_signals df) =
     fold (signal_step (df\<lparr>Signal := replicate (length (close df)) 0,
                             Position := replicate (length (close df)) 0\<rparr>))
       [Suc 0..<length (close df)] (replicate (length (close df)) 0)"
  by (simp add: generate_signals_def Let_def)

lemma cross_up_frame:
  "cross_up (df\<lparr>Signal := s, Position := p\<rparr>) i = cross_up df i"
  by (simp add: cross_up_def)

lemma cross_down_frame:
  "cross_down (df\<lparr>Signal := s, Position := p\<rparr>) i = cross_down df i"
  by (simp add: cross_down_def)

lemma Signal_generate_signals_nth:
  assumes "i < length (close df)"
  shows "Signal (generate_signals df) ! i =
     (if Suc 0 \<le> i then (if cross_up df i then 1 else if cross_down df i then - 1 else 0)
      else 0)"
  using assms
  by (simp add: Signal_generate_signals fold_signal_step_nth cross_up_frame cross_down_frame)

text \<open>
  C1. For every bar \<open>i \<ge> 1\<close> the signal is \<open>+1\<close> exactly on an upward
  crossing (short above long at \<open>i\<close>, short below long at \<open>i - 1\<close>),
  \<open>-1\<close> exactly on a downward crossing and \<open>0\<close> otherwise; two equal
  averages at \<open>i\<close> or at \<open>i - 1\<close> give \<open>0\<close>, and so does
  an undefined average at either bar.
\<close>

theorem generate_signals_crossover:
  assumes "length (SMA_20 df) = length (close df)"
    and "length (SMA_50 df) = length (close df)"
    and "1 \<le> i" and "i < length (close df)"
  shows "(Signal (generate_signals df) ! i = 1 \<longleftrightarrow>
            fgt (SMA_20 df ! i) (SMA_50 df ! i) \<and> flt (SMA_20 df ! (i - 1)) (SMA_50 df ! (i - 1)))
       \<and> (Signal (generate_signals df) ! i = - 1 \<longleftrightarrow>
            flt (SMA_20 df ! i) (SMA_50 df ! i) \<and> fgt (SMA_20 df ! (i - 1)) (SMA_50 df ! (i - 1)))
       \<and> (Signal (generate_signals df) ! i \<noteq> 1 \<and> Signal (generate_signals df) ! i \<noteq> - 1
            \<longrightarrow> Signal (generate_signals df) ! i = 0)
       \<and> (SMA_20 df ! i = SMA_50 df ! i \<or> SMA_20 df ! (i - 1) = SMA_50 df ! (i - 1)
            \<longrightarrow> Signal (generate_signals df) ! i = 0)
       \<and> (SMA_20 df ! i = NaN \<or> SMA_50 df ! i = NaN
            \<or> SMA_20 df ! (i - 1) = NaN \<or> SMA_50 df ! (i - 1) = NaN
            \<longrightarrow> Signal (generate_signals df) ! i = 0)"
proof -
  have at_i: "Signal (generate_signals df) ! i =
      (if cross_up df i then 1 else if cross_down df i then - 1 else 0)"
    using assms(3,4) by (simp add: Signal_generate_signals_nth)
  have up: "cross_up df i \<longleftrightarrow>
      fgt (SMA_20 df ! i) (SMA_50 df ! i) \<and> flt (SMA_20 df ! (i - 1)) (SMA_50 df ! (i - 1))"
    by (simp add: cross_up_def)
  have down: "cross_down df i \<longleftrightarrow>
      flt (SMA_20 df ! i) (SMA_50 df ! i) \<and> fgt (SMA_20 df ! (i - 1)) (SMA_50 df ! (i - 1))"
    by (simp add: cross_down_def)
  have excl: "\<not> (cross_up df i \<and> cross_down df i)"
    by (rule cross_exclusive)
  have c1: "Signal (generate_signals df) ! i = 1 \<longleftrightarrow> cross_up df i"
    by (simp add: at_i)
  have c2: "Signal (generate_signals df) ! i = - 1 \<longleftrightarrow> cross_down df i"
    using excl by (auto simp: at_i)
  have c3: "Signal (generate_signals df) ! i \<noteq> 1 \<and> Signal (generate_signals df) ! i \<noteq> - 1
      \<longrightarrow> Signal (generate_signals df) ! i = 0"
    by (simp add: at_i)
  have eq: "\<not> cross_up df i \<and> \<not> cross_down df i"
    if "SMA_20 df ! i = SMA_50 df ! i \<or> SMA_20 df ! (i - 1) = SMA_50 df ! (i - 1)"
    using that by (auto simp: cross_up_def cross_down_def fgt_def flt_irrefl)
  have nan: "\<not> cross_up df i \<and> \<not> cross_down df i"
    if "SMA_20 df ! i = NaN \<or> SMA_50 df ! i = NaN
        \<or> SMA_20 df ! (i - 1) = NaN \<or> SMA_50 df ! (i - 1) = NaN"
    using that by (auto simp: cross_up_def cross_down_def fgt_def flt_NaN)
  have c4: "SMA_20 df ! i = SMA_50 df ! i \<or> SMA_20 df ! (i - 1) = SMA_50 df ! (i - 1)
      \<longrightarrow> Signal (generate_signals df) ! i = 0"
    using eq by (simp add: at_i)
  have c5: "SMA_20 df ! i = NaN \<or> SMA_50 df ! i = NaN
      \<or> SMA_20 df ! (i - 1) = NaN \<or> SMA_50 df ! (i - 1) = NaN
      \<longrightarrow> Signal (generate_signals df) ! i = 0"
    using nan by (simp add: at_i)
  show ?thesis
    unfolding up [symmetric] down [symmetric]
    using c1 c2 c3 c4 c5 by blast
qed

theorem generate_signals_crossover_witness:
  "length (SMA_20 ((frame_of [Fin 1, Fin 1])\<lparr>SMA_20 := [Fin 1, Fin 3], SMA_50 := [Fin 2, Fin 2]\<rparr>))
     = length (close ((frame_of [Fin 1, Fin 1])\<lparr>SMA_20 := [Fin 1, Fin 3], SMA_50 := [Fin 2, Fin 2]\<rparr>))
   \<and> length (SMA_50 ((frame_of [Fin 1, Fin 1])\<lparr>SMA_20 := [Fin 1, Fin 3], SMA_50 := [Fin 2, Fin 2]\<rparr>))
     = length (close ((frame_of [Fin 1, Fin 1])\<lparr>SMA_20 := [Fin 1, Fin 3], SMA_50 := [Fin 2, Fin 2]\<rparr>))
   \<and> (1::nat) \<le> 1
   \<and> (1::nat) < length (close ((frame_of [Fin 1, Fin 1])\<lparr>SMA_20 := [Fin 1, Fin 3], SMA_50 := [Fin 2, Fin 2]\<rparr>))
   \<and> Signal (generate_signals
        ((frame_of [Fin 1, Fin 1])\<lparr>SMA_20 := [Fin 1, Fin 3], SMA_50 := [Fin 2, Fin 2]\<rparr>)) ! 1 = 1"
proof -
  let ?w = "(frame_of [Fin 1, Fin 1])\<lparr>SMA_20 := [Fin 1, Fin 3], SMA_50 := [Fin 2, Fin 2]\<rparr>"
  have h1: "length (SMA_20 ?w) = length (close ?w)" by (simp add: frame_of_def)
  have h2: "length (SMA_50 ?w) = length (close ?w)" by (simp add: frame_of_def)
  have h3: "(1::nat) \<le> 1" by simp
  have h4: "(1::nat) < length (close ?w)" by (simp add: frame_of_def)
  have "Signal (generate_signals ?w) ! 1 = 1"
    using generate_signals_crossover [OF h1 h2 h3 h4] by (simp add: fgt_def)
  with h1 h2 h3 h4 show ?thesis by blast
qed

section \<open>Properties of the position tracker\<close>

lemma length_position_step: "length (position_step df i pos) = length pos"
  by (simp add: position_step_def)

lemma length_fold_position_step: "length (fold (position_step df) js pos) = length pos"
  by (induction js arbitrary: pos) (simp_all add: length_position_step)

lemma position_step_nth:
  "j < length pos \<Longrightarrow> position_step df i pos ! j =
     (if j = i
      then (if Signal df ! i = 1 then 1 else if Signal df ! i = - 1 then 0 else pos ! (i - 1))
      else pos ! j)"
  by (simp add: position_step_def)

lemma fold_position_step_Suc:
  "Suc 0 \<le> k \<Longrightarrow> fold (position_step df) [Suc 0..<Suc k] pos =
     position_step df k (fold (position_step df) [Suc 0..<k] pos)"
  by simp

text \<open>The loop has not touched bar 0 nor the bars it has not reached yet.\<close>

lemma fold_position_step_untouched:
  assumes "j < length pos" and "j = 0 \<or> k \<le> j"
  shows "fold (position_step df) [Suc 0..<k] pos ! j = pos ! j"
  using assms(2)
proof (induction k)
  case 0
  show ?case by simp
next
  case (Suc k)
  show ?case
  proof (cases "Suc 0 \<le> k")
    case False
    then show ?thesis by simp
  next
    case True
    have len: "j < length (fold (position_step df) [Suc 0..<k] pos)"
      using assms(1) by (simp add: length_fold_position_step)
    from Suc.prems True have "j \<noteq> k" and "j = 0 \<or> k \<le> j" by auto
    with Suc.IH show ?thesis
      by (simp only: fold_position_step_Suc [OF True] position_step_nth [OF len]) simp
  qed
qed

text \<open>Every bar the loop has passed obeys the transition rule on the final column.\<close>

lemma fold_position_step_rule:
  assumes "j < length pos" and "Suc 0 \<le> j"
  shows "j < k \<Longrightarrow> fold (position_step df) [Suc 0..<k] pos ! j =
     (if Signal df ! j = 1 then 1 else if Signal df ! j = - 1 then 0
      else fold (position_step df) [Suc 0..<k] pos ! (j - 1))"
proof (induction k)
  case 0
  then show ?case by simp
next
  case (Suc k)
  from Suc.prems assms(2) have k1: "Suc 0 \<le> k" by simp
  let ?p = "fold (position_step df) [Suc 0..<k] pos"
  have len: "j < length ?p" "j - 1 < length ?p"
    using assms(1) by (simp_all add: length_fold_position_step)
  have prev: "position_step df k ?p ! (j - 1) = ?p ! (j - 1)"
    using Suc.prems assms(2) by (subst position_step_nth [OF len(2)]) auto
  have cur: "position_step df k ?p ! j =
      (if j = k
       then (if Signal df ! k = 1 then 1 else if Signal df ! k = - 1 then 0 else ?p ! (k - 1))
       else ?p ! j)"
    by (rule position_step_nth [OF len(1)])
  show ?case
  proof (cases "j = k")
    case True
    show ?thesis
      unfolding fold_position_step_Suc [OF k1] prev cur
      using True by simp
  next
    case False
    with Suc.prems have "j < k" by simp
    from Suc.IH [OF this] False show ?thesis
      unfolding fold_position_step_Suc [OF k1] prev cur
      by simp
  qed
qed

text \<open>
  C5. The position column starts flat, and for every bar \<open>i \<ge> 1\<close> it is
  \<open>1\<close> on a buy signal, \<open>0\<close> on a sell signal and the position of the
  bar before on signal \<open>0\<close>; so it differs from the bar before only where the
  signal is not \<open>0\<close>. The column is the one \<open>generate_signals\<close> leaves:
  all zeros.
\<close>

theorem update_position_transitions:
  assumes "Position df = replicate (length (close df)) 0"
    and "length (Signal df) = length (close df)"
    and "1 \<le> i" and "i < length (close df)"
  shows "Position (update_position df) ! 0 = 0
       \<and> (Signal df ! i = 1 \<longrightarrow> Position (update_position df) ! i = 1)
       \<and> (Signal df ! i = - 1 \<longrightarrow> Position (update_position df) ! i = 0)
       \<and> (Signal df ! i = 0 \<longrightarrow>
            Position (update_position df) ! i = Position (update_position df) ! (i - 1))
       \<and> (Position (update_position df) ! i \<noteq> Position (update_position df) ! (i - 1)
            \<longrightarrow> Signal df ! i \<noteq> 0)"
proof -
  let ?n = "length (close df)"
  have pos: "Position (update_position df) = fold (position_step df) [Suc 0..<?n] (Position df)"
    by (simp add: update_position_def)
  have lp: "length (Position df) = ?n"
    by (simp add: assms(1))
  have len: "i < length (Position df)" "0 < length (Position df)"
    using assms(4) unfolding lp by linarith+
  have zero: "Position (update_position df) ! 0 = 0"
    using fold_position_step_untouched [OF len(2), of ?n df] len(2)
    unfolding pos lp by (simp add: assms(1))
  have rule: "Position (update_position df) ! i =
      (if Signal df ! i = 1 then 1 else if Signal df ! i = - 1 then 0
       else Position (update_position df) ! (i - 1))"
    using fold_position_step_rule [OF len(1), of ?n df] assms(3,4) by (simp add: pos)
  show ?thesis
    using zero rule by auto
qed

theorem update_position_transitions_witness:
  "Position ((frame_of [Fin 1, Fin 2, Fin 3])\<lparr>Signal := [0, 1, 0], Position := [0, 0, 0]\<rparr>)
     = replicate (length (close ((frame_of [Fin 1, Fin 2, Fin 3])\<lparr>Signal := [0, 1, 0], Position := [0, 0, 0]\<rparr>))) 0
   \<and> length (Signal ((frame_of [Fin 1, Fin 2, Fin 3])\<lparr>Signal := [0, 1, 0], Position := [0, 0, 0]\<rparr>))
     = length (close ((frame_of [Fin 1, Fin 2, Fin 3])\<lparr>Signal := [0, 1, 0], Position := [0, 0, 0]\<rparr>))
   \<and> (1::nat) \<le> 2
   \<and> (2::nat) < length (close ((frame_of [Fin 1, Fin 2, Fin 3])\<lparr>Signal := [0, 1, 0], Position := [0, 0, 0]\<rparr>))
   \<and> Position (update_position
        ((frame_of [Fin 1, Fin 2, Fin 3])\<lparr>Signal := [0, 1, 0], Position := [0, 0, 0]\<rparr>)) ! 2
     = Position (update_position
        ((frame_of [Fin 1, Fin 2, Fin 3])\<lparr>Signal := [0, 1, 0], Position := [0, 0, 0]\<rparr>)) ! 1"
proof -
  let ?w = "(frame_of [Fin 1, Fin 2, Fin 3])\<lparr>Signal := [0, 1, 0], Position := [0, 0, 0]\<rparr>"
  have h1: "Position ?w = replicate (length (close ?w)) 0"
    by (simp add: frame_of_def numeral_3_eq_3)
  have h2: "length (Signal ?w) = length (close ?w)" by (simp add: frame_of_def)
  have h3: "(1::nat) \<le> 2" by simp
  have h4: "(2::nat) < length (close ?w)" by (simp add: frame_of_def)
  have s2: "Signal ?w ! 2 = 0" by simp
  have "Position (update_position ?w) ! 2 = Position (update_position ?w) ! (2 - 1)"
    using update_position_transitions [OF h1 h2 h3 h4] s2 by blast
  then have "Position (update_position ?w) ! 2 = Position (update_position ?w) ! 1" by simp
  with h1 h2 h3 h4 show ?thesis by blast
qed

section \<open>Properties of the moving average calculator\<close>

lemma realpart_not_finite: "\<not> isfinite v \<Longrightarrow> realpart v = 0"
  by (cases v) simp_all

lemma add_mean_cases:
  "add_mean v st = (if isfinite v then (fst st + 1, snd st + realpart v) else st)"
  by (cases v) (simp_all add: add_mean_def)

lemma remove_mean_cases:
  "remove_mean v st = (if isfinite v then (fst st - 1, snd st - realpart v) else st)"
  by (cases v) (simp_all add: remove_mean_def)

lemma win_state_0: "win_state W vs 0 = (0, 0)"
  by (simp add: win_state_def)

lemma win_state_Suc_short:
  assumes "k < W"
  shows "win_state W vs (Suc k) = add_mean (vs ! k) (win_state W vs k)"
proof -
  from assms have "Suc k - W = 0" "k - W = 0" by simp_all
  then show ?thesis
    by (simp add: win_state_def add_mean_cases realpart_not_finite)
qed

lemma win_state_Suc_full:
  assumes "W \<le> k" and "0 < W"
  shows "win_state W vs (Suc k) = add_mean (vs ! k) (remove_mean (vs ! (k - W)) (win_state W vs k))"
proof -
  from assms have a: "[k - W..<k] = (k - W) # [Suc k - W..<k]"
    by (metis Suc_diff_le diff_less upt_conv_Cons zero_less_Suc less_le_trans not_less0 not_gr_zero)
  from assms have b: "[Suc k - W..<Suc k] = [Suc k - W..<k] @ [k]"
    by simp
  show ?thesis
    unfolding win_state_def a b
    by (simp add: add_mean_cases remove_mean_cases realpart_not_finite)
qed

lemma fold_roll_mean_step:
  assumes "0 < W"
  shows "fold (roll_mean_step W vs) [0..<k] ((0, 0), []) =
     (win_state W vs k, map (\<lambda>i. calc_mean W (win_state W vs (Suc i))) [0..<k])"
proof (induction k)
  case 0
  show ?case by (simp add: win_state_0)
next
  case (Suc k)
  show ?case
  proof (cases "W \<le> k")
    case True
    then show ?thesis
      using Suc.IH win_state_Suc_full [OF True assms, of vs]
      by (simp add: roll_mean_step_def Let_def)
  next
    case False
    then have "k < W" by simp
    then show ?thesis
      using Suc.IH win_state_Suc_short [of k W vs]
      by (simp add: roll_mean_step_def Let_def)
  qed
qed

lemma length_prep_values: "length (prep_values xs) = length xs"
  by (simp add: prep_values_def)

lemma prep_values_nth:
  "j < length xs \<Longrightarrow> prep_values xs ! j = (if isfinite (xs ! j) then xs ! j else NaN)"
  by (simp add: prep_values_def)

lemma length_rolling_mean: "0 < W \<Longrightarrow> length (rolling_mean W xs) = length xs"
  by (simp add: rolling_mean_def Let_def fold_roll_mean_step length_prep_values)

lemma rolling_mean_nth_state:
  "0 < W \<Longrightarrow> i < length xs \<Longrightarrow>
     rolling_mean W xs ! i = calc_mean W (win_state W (prep_values xs) (Suc i))"
  by (simp add: rolling_mean_def Let_def fold_roll_mean_step length_prep_values)

lemma win_state_prep:
  assumes "k \<le> length xs"
  shows "win_state W (prep_values xs) k =
     (length (filter isfinite (map (\<lambda>j. xs ! j) [k - W..<k])),
      sum_list (map realpart (filter isfinite (map (\<lambda>j. xs ! j) [k - W..<k]))))"
proof -
  have "\<And>j. j \<in> set [k - W..<k] \<Longrightarrow> j < length xs"
    using assms by simp
  then have fin: "\<And>j. j \<in> set [k - W..<k] \<Longrightarrow>
      isfinite (prep_values xs ! j) = isfinite (xs ! j)
      \<and> realpart (prep_values xs ! j) = (if isfinite (xs ! j) then realpart (xs ! j) else 0)"
    by (simp add: prep_values_nth)
  have cnt: "filter isfinite (map (\<lambda>j. prep_values xs ! j) js) =
             map (\<lambda>j. prep_values xs ! j) (filter (\<lambda>j. isfinite (xs ! j)) js)"
    if "set js \<subseteq> set [k - W..<k]" for js
    using that fin by (induction js) auto
  have sm: "sum_list (map (\<lambda>j. realpart (prep_values xs ! j)) js) =
            sum_list (map realpart (filter isfinite (map (\<lambda>j. xs ! j) js)))"
    if "set js \<subseteq> set [k - W..<k]" for js
    using that fin by (induction js) auto
  have cnt2: "length (filter isfinite (map (\<lambda>j. prep_values xs ! j) js)) =
              length (filter isfinite (map (\<lambda>j. xs ! j) js))"
    if "set js \<subseteq> set [k - W..<k]" for js
    using that fin by (induction js) auto
  show ?thesis
    unfolding win_state_def using cnt2 [of "[k - W..<k]"] sm [of "[k - W..<k]"] by simp
qed

lemma rolling_mean_nth:
  assumes "0 < W" and "i < length xs"
  shows "rolling_mean W xs ! i = (if i + 1 < W then NaN else trailing_mean W xs i)"
proof -
  let ?w = "map (\<lambda>j. xs ! j) [Suc i - W..<Suc i]"
  have st: "rolling_mean W xs ! i =
      calc_mean W (length (filter isfinite ?w), sum_list (map realpart (filter isfinite ?w)))"
    using assms by (simp add: rolling_mean_nth_state win_state_prep)
  have lw: "length ?w = Suc i - (Suc i - W)" by (simp only: length_map length_upt)
  show ?thesis
  proof (cases "i + 1 < W")
    case True
    have "length (filter isfinite ?w) \<le> length ?w" by (rule length_filter_le)
    with True lw have "length (filter isfinite ?w) < W" by simp
    with True show ?thesis by (simp add: st calc_mean_def)
  next
    case False
    then have lW: "length ?w = W" using lw by simp
    show ?thesis
    proof (cases "list_all isfinite ?w")
      case True
      then have "filter isfinite ?w = ?w" unfolding list_all_iff by (simp only: filter_True)
      with True False lW assms(1) show ?thesis
        by (simp add: st calc_mean_def trailing_mean_def Let_def)
    next
      case nf: False
      then have "\<exists>x \<in> set ?w. \<not> isfinite x" unfolding list_all_iff by blast
      then have "length (filter isfinite ?w) < length ?w" by (blast intro: length_filter_less)
      with nf False lW show ?thesis
        by (simp add: st calc_mean_def trailing_mean_def Let_def)
    qed
  qed
qed

lemma SMA_calculate_moving_averages:
  "SMA_20 (calculate_moving_averages df) = rolling_mean 20 (close df)"
  "SMA_50 (calculate_moving_averages df) = rolling_mean 50 (close df)"
  "close (calculate_moving_averages df) = close df"
  by (simp_all add: calculate_moving_averages_def)


lemma trailing_mean_const:
  assumes "W \<le> i + 1" and "i < n" and "0 < W"
  shows "trailing_mean W (replicate n (Fin c)) i = Fin c"
proof -
  have "map (\<lambda>j. replicate n (Fin c) ! j) [i + 1 - W..<i + 1] =
        map (\<lambda>j. Fin c) [i + 1 - W..<i + 1]"
    using assms by (intro map_cong) auto
  also have "\<dots> = replicate W (Fin c)"
    using assms by (simp only: map_replicate_const length_upt) simp
  finally have "map (\<lambda>j. replicate n (Fin c) ! j) [i + 1 - W..<i + 1] = replicate W (Fin c)" .
  then show ?thesis
    using assms by (simp add: trailing_mean_def Let_def list_all_iff sum_list_replicate)
qed


section \<open>Properties of the portfolio simulator\<close>

lemma trade_step_cong:
  assumes "Signal df1 = Signal df2" and "close df1 = close df2"
  shows "trade_step df1 = trade_step df2"
proof (intro ext)
  fix i st
  show "trade_step df1 i st = trade_step df2 i st"
    unfolding trade_step_def assms ..
qed

lemma trade_loop_cong:
  "Signal df1 = Signal df2 \<Longrightarrow> close df1 = close df2 \<Longrightarrow> trade_loop df1 c k = trade_loop df2 c k"
  by (simp add: trade_loop_def trade_step_cong [of df1 df2])

lemma simulate_trades_cong:
  assumes "Signal df1 = Signal df2" and "close df1 = close df2"
  shows "portfolio_columns (simulate_trades df1 c) = portfolio_columns (simulate_trades df2 c)"
  using assms trade_loop_cong [OF assms, of c "length (close df2)"]
  by (simp add: simulate_trades_def portfolio_columns_def split: prod.splits)

lemma adjust_position_size_keeps:
  assumes "adjust_position_size df c f = Inr df'"
  shows "Signal df' = Signal df" and "close df' = close df"
  using assms
  by (auto simp: adjust_position_size_def calculate_volatility_def Let_def split: if_splits)

text \<open>
  C10. The portfolio columns and the cash of every bar depend on \<open>Signal\<close> and
  \<open>close\<close> only: the simulation of the frame \<open>adjust_position_size\<close>
  returns gives what the simulation of the frame without any position size gives, and so
  does any other content of \<open>Position Size\<close>.
\<close>

theorem simulate_trades_ignores_position_size:
  assumes "adjust_position_size df initial_capital fixed_fraction = Inr df'"
  shows "portfolio_columns (simulate_trades df' initial_capital) =
           portfolio_columns (simulate_trades df initial_capital)
       \<and> cash_at df' initial_capital i = cash_at df initial_capital i
       \<and> portfolio_columns (simulate_trades (df\<lparr>Position_Size := ps\<rparr>) initial_capital) =
           portfolio_columns (simulate_trades df initial_capital)"
proof -
  note k = adjust_position_size_keeps [OF assms]
  have a: "portfolio_columns (simulate_trades df' initial_capital) =
           portfolio_columns (simulate_trades df initial_capital)"
    by (rule simulate_trades_cong [OF k])
  have b: "cash_at df' initial_capital i = cash_at df initial_capital i"
    by (simp add: cash_at_def trade_loop_cong [OF k])
  have c: "portfolio_columns (simulate_trades (df\<lparr>Position_Size := ps\<rparr>) initial_capital) =
           portfolio_columns (simulate_trades df initial_capital)"
    by (rule simulate_trades_cong) simp_all
  from a b c show ?thesis by blast
qed


lemma rolling_std_short:
  assumes "length xs < W"
  shows "rolling_std W xs = replicate (length xs) NaN"
proof -
  have "(let w = filter isfinite (map (\<lambda>j. prep_values xs ! j) [i + 1 - W..<i + 1])
         in if W \<le> length w \<and> 1 < length w then Fin (sample_std (map realpart w)) else NaN) = NaN"
    if "i < length xs" for i
  proof -
    have "length (filter isfinite (map (\<lambda>j. prep_values xs ! j) [i + 1 - W..<i + 1]))
          \<le> length (map (\<lambda>j. prep_values xs ! j) [i + 1 - W..<i + 1])"
      by (rule length_filter_le)
    also have "\<dots> \<le> i + 1" by simp
    also have "\<dots> < W" using that assms by simp
    finally show ?thesis by (simp add: Let_def)
  qed
  then have "map (\<lambda>i. let w = filter isfinite (map (\<lambda>j. prep_values xs ! j) [i + 1 - W..<i + 1])
         in if W \<le> length w \<and> 1 < length w then Fin (sample_std (map realpart w)) else NaN)
       [0..<length xs] = map (\<lambda>i. NaN) [0..<length xs]"
    by (intro map_cong) auto
  then show ?thesis
    by (simp add: rolling_std_def Let_def prep_values_def map_replicate_const)
qed

theorem simulate_trades_ignores_position_size_witness:
  "adjust_position_size ((frame_of [Fin 10, Fin 10])\<lparr>Signal := [0, 1]\<rparr>) (Fin 100) (Fin (1 / 10))
     = Inr ((frame_of [Fin 10, Fin 10])\<lparr>Signal := [0, 1], Daily_Returns := [NaN, Fin 0],
            Volatility := [NaN, NaN], Position_Size := [NaN, NaN]\<rparr>)
   \<and> portfolio_columns (simulate_trades
         ((frame_of [Fin 10, Fin 10])\<lparr>Signal := [0, 1], Daily_Returns := [NaN, Fin 0],
            Volatility := [NaN, NaN], Position_Size := [NaN, NaN]\<rparr>) (Fin 100))
     = portfolio_columns (simulate_trades ((frame_of [Fin 10, Fin 10])\<lparr>Signal := [0, 1]\<rparr>) (Fin 100))
   \<and> portfolio_columns (simulate_trades ((frame_of [Fin 10, Fin 10])\<lparr>Signal := [0, 1]\<rparr>) (Fin 100))
     = Inr ([Fin 100, Fin 100], [Fin 0, Fin 100], [NaN, Fin 0])"
proof -
  let ?w = "(frame_of [Fin 10, Fin 10])\<lparr>Signal := [0, 1]\<rparr>"
  let ?w' = "(frame_of [Fin 10, Fin 10])\<lparr>Signal := [0, 1], Daily_Returns := [NaN, Fin 0],
            Volatility := [NaN, NaN], Position_Size := [NaN, NaN]\<rparr>"
  have h: "adjust_position_size ?w (Fin 100) (Fin (1 / 10)) = Inr ?w'"
    by (simp add: adjust_position_size_def calculate_volatility_def frame_of_def pct_change_def
        ffill_def shift1_def fsub_def rolling_std_short Let_def numeral_2_eq_2)
  have ev: "portfolio_columns (simulate_trades ?w (Fin 100))
      = Inr ([Fin 100, Fin 100], [Fin 0, Fin 100], [NaN, Fin 0])"
    by (simp add: portfolio_columns_def simulate_trades_def trade_loop_def trade_step_def
        frame_of_def pct_change_def ffill_def shift1_def fsub_def upt_conv_Cons numeral_2_eq_2)
  from simulate_trades_ignores_position_size [OF h]
  have "portfolio_columns (simulate_trades ?w' (Fin 100)) =
        portfolio_columns (simulate_trades ?w (Fin 100))"
    by blast
  with h ev show ?thesis by blast
qed

text \<open>
  The simulator called on closes 10, 10, 10 with a buy at bar 1, a hold at bar 2 and an
  initial capital of 100. The buy moves the whole cash into the position. At the hold bar
  the loop finds \<open>Invested Capital[2]\<close> still unset and adds 0, so the portfolio
  value of bar 2 is 0; the forward fill that follows the loop sets the invested capital
  of bar 2 to 100. The value of bar 2 is not its cash (0) plus its invested capital (100).
\<close>

lemma simulate_trades_hold_bar_drops_invested_capital:
  "portfolio_columns (simulate_trades
      ((frame_of [Fin 10, Fin 10, Fin 10])\<lparr>Signal := [0, 1, 0]\<rparr>) (Fin 100))
     = Inr ([Fin 100, Fin 100, Fin 0], [Fin 0, Fin 100, Fin 100], [NaN, Fin 0, Fin (- 1)])
   \<and> cash_at ((frame_of [Fin 10, Fin 10, Fin 10])\<lparr>Signal := [0, 1, 0]\<rparr>) (Fin 100) 2 = Fin 0"
  by (simp add: portfolio_columns_def simulate_trades_def cash_at_def trade_loop_def
      trade_step_def frame_of_def pct_change_def ffill_def shift1_def fsub_def upt_conv_Cons
      numeral_3_eq_3)

text \<open>
  The simulator called on closes 50, 50 with a buy at bar 1, an initial capital of 100000
  and a position size of 5000 at every bar: the buy commits the whole cash, 100000, and
  leaves a cash of 0, where the position size capped at the cash is 5000.
\<close>

lemma simulate_trades_commits_all_cash:
  "portfolio_columns (simulate_trades
      ((frame_of [Fin 50, Fin 50])\<lparr>Signal := [0, 1], Position_Size := [Fin 5000, Fin 5000]\<rparr>)
      (Fin 100000))
     = Inr ([Fin 100000, Fin 100000], [Fin 0, Fin 100000], [NaN, Fin 0])
   \<and> cash_at ((frame_of [Fin 50, Fin 50])\<lparr>Signal := [0, 1],
        Position_Size := [Fin 5000, Fin 5000]\<rparr>) (Fin 100000) 1 = Fin 0"
  by (simp add: portfolio_columns_def simulate_trades_def cash_at_def trade_loop_def
      trade_step_def frame_of_def pct_change_def ffill_def shift1_def fsub_def upt_conv_Cons
      numeral_2_eq_2)

section \<open>Properties of the maximum drawdown\<close>

lemma dd_real_le0: "0 < a \<Longrightarrow> d \<in> set (dd_real a rs) \<Longrightarrow> d \<le> 0"
proof (induction rs arbitrary: a)
  case Nil
  then show ?case by simp
next
  case (Cons r rs)
  have m: "0 < max a r" using Cons.prems(1) by simp
  have "r / max a r \<le> 1" using m by (simp add: divide_le_eq)
  with Cons m show ?case by auto
qed

lemma dd_real_all0: "0 < a \<Longrightarrow> (\<forall>d \<in> set (dd_real a rs). d = 0) \<longleftrightarrow> sorted (a # rs)"
proof (induction rs arbitrary: a)
  case Nil
  then show ?case by simp
next
  case (Cons r rs)
  have m: "0 < max a r" using Cons.prems by simp
  have z: "r / max a r - 1 = 0 \<longleftrightarrow> a \<le> r"
    using m Cons.prems by (auto simp: max_def)
  have "(\<forall>d \<in> set (dd_real a (r # rs)). d = 0) \<longleftrightarrow> a \<le> r \<and> sorted (max a r # rs)"
    using Cons.IH [OF m] z by simp
  also have "\<dots> \<longleftrightarrow> sorted (a # r # rs)"
    by (auto simp: max_def)
  finally show ?case .
qed

lemma dropna_dd_Fin:
  assumes "0 < a" and "list_all isfinite (dropna V)"
  shows "dropna (map2 (\<lambda>v m. fsub (fdiv v m) (Fin 1)) V (cummax_from (Fin a) V)) =
         map Fin (dd_real a (map realpart (dropna V)))"
  using assms
proof (induction V arbitrary: a)
  case Nil
  then show ?case by (simp add: dropna_def)
next
  case (Cons v V)
  show ?case
  proof (cases v)
    case NaN
    with Cons show ?thesis by (simp add: dropna_def fsub_def)
  next
    case (Fin r)
    have m: "0 < max a r" using Cons.prems(1) by simp
    have fm: "fmax (Fin a) (Fin r) = Fin (max a r)" by (simp add: fmax_def max_def)
    from Cons.prems(2) Fin have "list_all isfinite (dropna V)" by (simp add: dropna_def)
    from Cons.IH [OF m this] Fin m show ?thesis
      by (simp add: dropna_def fm fsub_def)
  next
    case NInf
    with Cons.prems show ?thesis by (simp add: dropna_def)
  next
    case PInf
    with Cons.prems show ?thesis by (simp add: dropna_def)
  qed
qed

lemma dropna_dd_start:
  assumes "list_all isfinite (dropna V)" and "dropna V = Fin r0 # W" and "0 < r0"
  shows "dropna (map2 (\<lambda>v m. fsub (fdiv v m) (Fin 1)) V (cummax_from NInf V)) =
         Fin 0 # map Fin (dd_real r0 (map realpart W))"
  using assms
proof (induction V)
  case Nil
  then show ?case by (simp add: dropna_def)
next
  case (Cons v V)
  show ?case
  proof (cases v)
    case NaN
    with Cons show ?thesis by (simp add: dropna_def fsub_def)
  next
    case (Fin r)
    with Cons.prems have r: "r = r0" and W: "dropna V = W" and f: "list_all isfinite (dropna V)"
      by (simp_all add: dropna_def)
    have fm: "fmax NInf (Fin r0) = Fin r0" by (simp add: fmax_def)
    from dropna_dd_Fin [OF Cons.prems(3) f] Cons.prems(3) show ?thesis
      by (simp add: Fin r W [unfolded dropna_def] dropna_def fm fsub_def)
  next
    case NInf
    with Cons.prems show ?thesis by (simp add: dropna_def)
  next
    case PInf
    with Cons.prems show ?thesis by (simp add: dropna_def)
  qed
qed

lemma fold_fmin_Fin:
  assumes "d \<le> 0" and "\<forall>x \<in> set ds. x \<le> 0"
  shows "\<exists>m. fold (\<lambda>x acc. fmin acc x) (map Fin ds) (Fin d) = Fin m \<and> m \<le> 0
           \<and> (m = 0 \<longleftrightarrow> d = 0 \<and> (\<forall>x \<in> set ds. x = 0))"
  using assms
proof (induction ds arbitrary: d)
  case Nil
  then show ?case by simp
next
  case (Cons x ds)
  have fm: "fmin (Fin d) (Fin x) = Fin (min d x)" by (simp add: fmin_def min_def)
  have "min d x \<le> 0" using Cons.prems by simp
  from Cons.IH [OF this] Cons.prems(2)
  obtain m where m: "fold (\<lambda>x acc. fmin acc x) (map Fin ds) (Fin (min d x)) = Fin m"
      "m \<le> 0" "m = 0 \<longleftrightarrow> min d x = 0 \<and> (\<forall>y \<in> set ds. y = 0)"
    by auto
  have "min d x = 0 \<longleftrightarrow> d = 0 \<and> x = 0"
    using Cons.prems by (auto simp: min_def)
  with m show ?case by (auto simp: fm)
qed

lemma sorted_wrt_fle_Fin: "sorted_wrt fle (map Fin rs) = sorted rs"
  by (induction rs) auto

lemma map_Fin_realpart: "list_all isfinite vs \<Longrightarrow> map Fin (map realpart vs) = vs"
proof (induction vs)
  case Nil
  show ?case by simp
next
  case (Cons v vs)
  then show ?case by (cases v) simp_all
qed

text \<open>
  C6, amended. For a value column whose defined entries are finite, with at least one
  defined entry and the first of them positive, the maximum drawdown is at most 0, and it
  is 0 exactly when the defined entries are non-decreasing.
\<close>

theorem max_drawdown_bound:
  assumes "list_all isfinite (dropna V)"
    and "dropna V \<noteq> []"
    and "flt (Fin 0) (hd (dropna V))"
  shows "fle (max_drawdown V) (Fin 0) \<and> (max_drawdown V = Fin 0 \<longleftrightarrow> non_decreasing V)"
proof -
  from assms(2) obtain v W where vW: "dropna V = v # W" by (cases "dropna V") auto
  with assms(1,3) obtain r0 where r0: "v = Fin r0" "0 < r0"
    by (cases v) auto
  have fW: "list_all isfinite W" using assms(1) vW by simp
  let ?rs = "map realpart W"
  have dd: "dropna (map2 (\<lambda>v m. fsub (fdiv v m) (Fin 1)) V (cummax V)) =
            Fin 0 # map Fin (dd_real r0 ?rs)"
    unfolding cummax_def using dropna_dd_start [OF assms(1) _ r0(2)] vW r0(1) by simp
  have le: "\<forall>x \<in> set (dd_real r0 ?rs). x \<le> 0"
    using dd_real_le0 [OF r0(2)] by blast
  from fold_fmin_Fin [OF _ le, of 0]
  obtain m where m: "fold (\<lambda>x acc. fmin acc x) (map Fin (dd_real r0 ?rs)) (Fin 0) = Fin m"
      "m \<le> 0" "m = 0 \<longleftrightarrow> (\<forall>x \<in> set (dd_real r0 ?rs). x = 0)"
    by auto
  have md: "max_drawdown V = Fin m"
    by (simp add: max_drawdown_def Let_def series_min_def dd m(1))
  have "non_decreasing V \<longleftrightarrow> sorted_wrt fle (map Fin (r0 # ?rs))"
    using map_Fin_realpart [OF fW] by (simp add: non_decreasing_def vW r0(1))
  also have "\<dots> \<longleftrightarrow> sorted (r0 # ?rs)" by (rule sorted_wrt_fle_Fin)
  also have "\<dots> \<longleftrightarrow> (\<forall>x \<in> set (dd_real r0 ?rs). x = 0)"
    by (rule dd_real_all0 [OF r0(2), symmetric])
  finally have "non_decreasing V \<longleftrightarrow> m = 0" using m(3) by simp
  with m(2) md show ?thesis by simp
qed

text \<open>
  C6 as stated fails: a column with no defined entry (the cumulative strategy returns of
  a one-bar series) has the drawdown \<open>NaN\<close>, which is not at most 0; and the
  decreasing column \<open>-1, -2\<close> has the drawdown 0.
\<close>

theorem max_drawdown_bound_counterexample:
  "\<not> fle (max_drawdown [NaN]) (Fin 0)
   \<and> max_drawdown [Fin (- 1), Fin (- 2)] = Fin 0
   \<and> \<not> non_decreasing [Fin (- 1), Fin (- 2)]"
  by (simp add: max_drawdown_def cummax_def series_min_def dropna_def fmax_def fmin_def fsub_def
      non_decreasing_def)

theorem max_drawdown_bound_witness:
  "list_all isfinite (dropna [NaN, Fin 4, Fin 2])
   \<and> dropna [NaN, Fin 4, Fin 2] \<noteq> []
   \<and> flt (Fin 0) (hd (dropna [NaN, Fin 4, Fin 2]))
   \<and> max_drawdown [NaN, Fin 4, Fin 2] = Fin (- 1 / 2)
   \<and> fle (max_drawdown [NaN, Fin 4, Fin 2]) (Fin 0)
   \<and> max_drawdown [NaN, Fin 4, Fin 2] \<noteq> Fin 0
   \<and> \<not> non_decreasing [NaN, Fin 4, Fin 2]"
proof -
  have h1: "list_all isfinite (dropna [NaN, Fin 4, Fin 2])" by (simp add: dropna_def)
  have h2: "dropna [NaN, Fin 4, Fin 2] \<noteq> []" by (simp add: dropna_def)
  have h3: "flt (Fin 0) (hd (dropna [NaN, Fin 4, Fin 2]))" by (simp add: dropna_def)
  have ev: "max_drawdown [NaN, Fin 4, Fin 2] = Fin (- 1 / 2)"
    by (simp add: max_drawdown_def cummax_def series_min_def dropna_def fmax_def fmin_def
        fsub_def)
  have nd: "\<not> non_decreasing [NaN, Fin 4, Fin 2]"
    by (simp add: non_decreasing_def dropna_def)
  from max_drawdown_bound [OF h1 h2 h3] nd
  have "fle (max_drawdown [NaN, Fin 4, Fin 2]) (Fin 0)"
    and "max_drawdown [NaN, Fin 4, Fin 2] \<noteq> Fin 0"
    by simp_all
  with h1 h2 h3 ev nd show ?thesis by blast
qed

section \<open>Properties of the metrics\<close>

lemma powr_ne: "(101 / 100) powr (6125 / 2) \<noteq> (101 / 100) powr (6125::real)"
proof
  assume "(101 / 100) powr (6125 / 2) = (101 / 100) powr (6125::real)"
  then have "(6125 / 2 :: real) = 6125"
    by (subst (asm) powr_inj) simp_all
  then show False by simp
qed

text \<open>
  The metrics of \<open>backtest_ma.py\<close> called on a frame of two bars whose return
  columns are \<open>NaN, 0.01\<close>: one defined return. The function divides 6125 by
  \<open>len(stock_data)\<close>, the number of bars, which counts the undefined first
  return: the exponent is \<open>6125 / 2\<close> where the specification's is
  \<open>6125 / 1\<close>, and the two annualized returns differ.
\<close>

lemma calculate_performance_metrics_exponent:
  "calculate_performance_metrics ''S''
     ((frame_of [Fin 100, Fin 101])\<lparr>Stock_Returns := [NaN, Fin (1 / 100)],
        Strategy_Returns := [NaN, Fin (1 / 100)],
        Cumulative_Stock_Returns := [NaN, Fin (101 / 100)],
        Cumulative_Strategy_Returns := [NaN, Fin (101 / 100)]\<rparr>)
   = Inr (''S'',
       [(''Annualized Strategy Returns'', Fin ((101 / 100) powr (6125 / 2) - 1)),
        (''Annualized Stock Returns'', Fin ((101 / 100) powr (6125 / 2) - 1)),
        (''Strategy Volatility'', NaN),
        (''Stock Volatility'', NaN),
        (''Sharpe Ratio'', NaN),
        (''Maximum Drawdown'', Fin 0)])
   \<and> annualized_return_spec [NaN, Fin (1 / 100)] = Fin ((101 / 100) powr 6125 - 1)
   \<and> Fin ((101 / 100) powr (6125 / 2) - 1) \<noteq> annualized_return_spec [NaN, Fin (1 / 100)]"
proof -
  have sp: "annualized_return_spec [NaN, Fin (1 / 100)] = Fin ((101 / 100) powr 6125 - 1)"
    by (simp add: annualized_return_spec_def dropna_def series_prod_def np_power_def fsub_def)
  have ev: "calculate_performance_metrics ''S''
     ((frame_of [Fin 100, Fin 101])\<lparr>Stock_Returns := [NaN, Fin (1 / 100)],
        Strategy_Returns := [NaN, Fin (1 / 100)],
        Cumulative_Stock_Returns := [NaN, Fin (101 / 100)],
        Cumulative_Strategy_Returns := [NaN, Fin (101 / 100)]\<rparr>)
   = Inr (''S'',
       [(''Annualized Strategy Returns'', Fin ((101 / 100) powr (6125 / 2) - 1)),
        (''Annualized Stock Returns'', Fin ((101 / 100) powr (6125 / 2) - 1)),
        (''Strategy Volatility'', NaN),
        (''Stock Volatility'', NaN),
        (''Sharpe Ratio'', NaN),
        (''Maximum Drawdown'', Fin 0)])"
    by (simp add: calculate_performance_metrics_def annualized_def frame_of_def dropna_def
        series_prod_def np_power_def fsub_def series_std_def max_drawdown_def cummax_def
        series_min_def fmax_def fmin_def Let_def)
  from ev sp powr_ne show ?thesis by simp
qed

text \<open>The sibling: the portfolio variant divides by the number of defined returns.\<close>

lemma calculate_performance_metrics_portfolio_annualized:
  assumes "calculate_performance_metrics_portfolio stock_name df = Inr m"
  shows "map_of (snd m) ''Annualized Portfolio Returns'' =
           Some (annualized_return_spec (Portfolio_Returns df))
         \<and> dropna (Portfolio_Returns df) \<noteq> []"
  using assms
  by (auto simp: calculate_performance_metrics_portfolio_def annualized_def Let_def
      annualized_return_spec_def dropna_def split: if_splits)

lemma calculate_performance_metrics_portfolio_no_returns:
  "dropna (Portfolio_Returns df) = [] \<Longrightarrow>
     calculate_performance_metrics_portfolio stock_name df = Inl ZeroDivisionError"
  by (simp add: calculate_performance_metrics_portfolio_def annualized_def Let_def)

section \<open>Constant columns\<close>

lemma ffill_from_notna: "list_all notna xs \<Longrightarrow> ffill_from p xs = xs"
  by (induction xs arbitrary: p) simp_all

lemma ffill_notna: "list_all notna xs \<Longrightarrow> ffill xs = xs"
  by (simp add: ffill_def ffill_from_notna)

lemma length_ffill_from: "length (ffill_from p xs) = length xs"
  by (induction xs arbitrary: p) simp_all

lemma length_pct_change: "length (pct_change xs) = length xs"
  by (simp add: pct_change_def Let_def shift1_def ffill_def length_ffill_from)

lemma length_rolling_std: "length (rolling_std W xs) = length xs"
  by (simp add: rolling_std_def Let_def prep_values_def)

lemma take_replicate_same: "take n (y # replicate n y) = replicate n y"
  by (simp only: replicate_Suc [symmetric] take_replicate) simp

lemma pct_change_const:
  assumes "c \<noteq> 0"
  shows "pct_change (replicate (Suc n) (Fin c)) = NaN # replicate n (Fin 0)"
proof -
  have f: "ffill (replicate (Suc n) (Fin c)) = replicate (Suc n) (Fin c)"
    by (rule ffill_notna) (simp add: list_all_iff)
  have s: "shift1 (replicate (Suc n) (Fin c)) = NaN # replicate n (Fin c)"
    unfolding shift1_def by (simp add: take_replicate_same)
  have z: "zip (replicate n (Fin c)) (replicate n (Fin c)) = replicate n (Fin c, Fin c)"
    by (induction n) simp_all
  show ?thesis
    unfolding pct_change_def f Let_def s
    using assms by (simp add: z fsub_def)
qed

lemma series_prod_ones: "series_prod (replicate n (Fin 1)) = Fin 1"
proof -
  have "fold (\<lambda>x acc. fmul acc x) (replicate n (Fin 1)) (Fin 1) = Fin 1"
    by (induction n) simp_all
  then show ?thesis by (simp add: series_prod_def dropna_def)
qed

lemma sample_std_zeros: "sample_std (replicate n 0) = 0"
  by (simp add: sample_std_def Let_def sum_list_replicate)

lemma series_std_zeros:
  "series_std (replicate n (Fin 0)) = (if n < 2 then NaN else Fin 0)"
  by (simp add: series_std_def dropna_def Let_def list_all_iff sample_std_zeros)

lemma cummax_from_const:
  "cummax_from (Fin c) (replicate n (Fin c)) = replicate n (Fin c)"
  by (induction n) (simp_all add: fmax_def)

lemma cummax_const: "cummax (replicate n (Fin c)) = replicate n (Fin c)"
proof (cases n)
  case 0
  then show ?thesis by (simp add: cummax_def)
next
  case (Suc m)
  then show ?thesis by (simp add: cummax_def fmax_def cummax_from_const)
qed

lemma funpow_fmin_zeros: "((\<lambda>acc. fmin acc (Fin 0)) ^^ n) (Fin 0) = Fin 0"
  by (induction n) (simp_all add: fmin_def)

lemma max_drawdown_const:
  assumes "c \<noteq> 0"
  shows "max_drawdown (replicate (Suc n) (Fin c)) = Fin 0"
proof -
  have z: "zip (replicate (Suc n) (Fin c)) (replicate (Suc n) (Fin c)) =
           replicate (Suc n) (Fin c, Fin c)"
    by (induction n) simp_all
  have "map2 (\<lambda>v m. fsub (fdiv v m) (Fin 1)) (replicate (Suc n) (Fin c))
          (cummax (replicate (Suc n) (Fin c))) = replicate (Suc n) (Fin 0)"
    unfolding cummax_const z using assms by (simp add: fsub_def)
  then show ?thesis
    by (simp add: max_drawdown_def Let_def series_min_def dropna_def funpow_fmin_zeros)
qed


section \<open>Series shorter than the long window\<close>

lemma rolling_mean_short:
  "0 < W \<Longrightarrow> length xs < W \<Longrightarrow> rolling_mean W xs = replicate (length xs) NaN"
  by (auto simp: list_eq_iff_nth_eq length_rolling_mean rolling_mean_nth)

lemma SMA_50_short:
  "length (close df) < 50 \<Longrightarrow>
     SMA_50 (calculate_moving_averages df) = replicate (length (close df)) NaN"
  by (simp add: SMA_calculate_moving_averages rolling_mean_short)

lemma length_Signal_generate_signals:
  "length (Signal (generate_signals df)) = length (close df)"
  by (simp add: Signal_generate_signals length_fold_signal_step)

lemma Position_generate_signals:
  "Position (generate_signals df) = replicate (length (close df)) 0"
  by (simp add: generate_signals_def Let_def)

lemma close_generate_signals: "close (generate_signals df) = close df"
  by (simp add: generate_signals_def Let_def)

lemma Signal_short:
  assumes "length (close df) < 50"
  shows "Signal (generate_signals (calculate_moving_averages df)) =
         replicate (length (close df)) 0"
proof -
  let ?m = "calculate_moving_averages df"
  have nan: "SMA_50 ?m ! i = NaN" if "i < length (close df)" for i
    using that by (simp add: SMA_50_short [OF assms])
  have no: "\<not> cross_up ?m i \<and> \<not> cross_down ?m i" if "i < length (close df)" for i
    using nan [OF that] by (simp add: cross_up_def cross_down_def fgt_def flt_NaN)
  show ?thesis
    using no
    by (simp add: list_eq_iff_nth_eq length_Signal_generate_signals
        SMA_calculate_moving_averages Signal_generate_signals_nth)
qed

lemma fold_position_step_zeros:
  assumes "\<forall>j \<in> set js. j < n \<and> Signal df ! j = 0"
  shows "fold (position_step df) js (replicate n 0) = replicate n 0"
  using assms
proof (induction js)
  case Nil
  show ?case by simp
next
  case (Cons j js)
  then have j: "j < n" "Signal df ! j = 0" by simp_all
  have "position_step df j (replicate n 0) = (replicate n 0)[j := replicate n 0 ! j]"
    using j by (simp add: position_step_def)
  then have "position_step df j (replicate n 0) = replicate n 0"
    by (simp only: list_update_id)
  with Cons show ?case by simp
qed

lemma Position_short:
  assumes "length (close df) < 50"
  shows "Position (update_position (generate_signals (calculate_moving_averages df))) =
         replicate (length (close df)) 0"
proof -
  let ?g = "generate_signals (calculate_moving_averages df)"
  have c: "close ?g = close df"
    by (simp add: close_generate_signals SMA_calculate_moving_averages)
  have p: "Position ?g = replicate (length (close df)) 0"
    by (simp add: Position_generate_signals SMA_calculate_moving_averages)
  have "\<forall>j \<in> set [1..<length (close df)]. j < length (close df) \<and> Signal ?g ! j = 0"
    by (simp add: Signal_short [OF assms])
  from fold_position_step_zeros [OF this] show ?thesis
    by (simp add: update_position_def c p)
qed

lemma fmul_flat: "z = NaN \<or> z = Fin 0 \<Longrightarrow> fmul r z = NaN \<or> fmul r z = Fin 0"
  by (cases r) auto

lemma set_shift1: "set (shift1 xs) \<subseteq> insert NaN (set xs)"
proof -
  have "set (take (length xs) (NaN # xs)) \<subseteq> set (NaN # xs)" by (rule set_take_subset)
  then show ?thesis by (simp add: shift1_def)
qed

lemma Strategy_Returns_flat:
  assumes "Position df = replicate n 0" and "x \<in> set (Strategy_Returns (calculate_returns df))"
  shows "x = NaN \<or> x = Fin 0"
proof -
  let ?z = "shift1 (map (\<lambda>p. Fin (real_of_int p)) (Position df))"
  from assms(2) obtain r z where rz: "x = fmul r z" "z \<in> set ?z"
    by (auto simp: calculate_returns_def Let_def dest: set_zip_rightD)
  have "set ?z \<subseteq> insert NaN (set (map (\<lambda>p. Fin (real_of_int p)) (Position df)))"
    by (rule set_shift1)
  with rz(2) have "z = NaN \<or> z = Fin 0" by (auto simp: assms(1))
  with rz(1) show ?thesis by (simp add: fmul_flat)
qed

lemma series_prod_flat:
  assumes "\<forall>x \<in> set xs. x = NaN \<or> x = Fin 0"
  shows "series_prod (map (fadd (Fin 1)) xs) = Fin 1"
proof -
  have "fold (\<lambda>x acc. fmul acc x) (filter notna (map (fadd (Fin 1)) xs)) (Fin 1) = Fin 1"
    using assms by (induction xs) auto
  then show ?thesis by (simp add: series_prod_def dropna_def)
qed

lemma np_power_one: "np_power (Fin 1) y = Fin 1"
  by (simp add: np_power_def)

lemma annualized_flat:
  assumes "\<forall>x \<in> set xs. x = NaN \<or> x = Fin 0" and "0 < n"
  shows "annualized xs n = Inr (Fin 0)"
  using assms(2) by (simp add: annualized_def series_prod_flat [OF assms(1)] np_power_one fsub_def)

lemma annualized_Inr: "0 < n \<Longrightarrow> \<exists>v. annualized xs n = Inr v"
  by (simp add: annualized_def)

lemma close_calculate_returns: "close (calculate_returns df) = close df"
  by (simp add: calculate_returns_def Let_def)

lemma close_update_position: "close (update_position df) = close df"
  by (simp add: update_position_def)

lemma simple_flat_annualized:
  assumes "length (close df) < 50" and "0 < length (close df)"
  shows "field ''Annualized Strategy Returns''
           (calculate_performance_metrics stock_name
             (calculate_returns (update_position
               (generate_signals (calculate_moving_averages df))))) = Some (Fin 0)"
proof -
  let ?u = "update_position (generate_signals (calculate_moving_averages df))"
  let ?r = "calculate_returns ?u"
  have c: "length (close ?r) = length (close df)"
    by (simp add: close_calculate_returns close_update_position close_generate_signals
        SMA_calculate_moving_averages)
  have "\<forall>x \<in> set (Strategy_Returns ?r). x = NaN \<or> x = Fin 0"
    using Strategy_Returns_flat [OF Position_short [OF assms(1)]] by blast
  from annualized_flat [OF this assms(2)]
  have a: "annualized (Strategy_Returns ?r) (length (close ?r)) = Inr (Fin 0)"
    by (simp only: c)
  from annualized_Inr [OF assms(2)]
  obtain v where b: "annualized (Stock_Returns ?r) (length (close ?r)) = Inr v"
    unfolding c by blast
  show ?thesis
    by (simp add: field_def calculate_performance_metrics_def a b Let_def)
qed


section \<open>The portfolio of a series without signals\<close>

lemma fadd_zero: "fadd c (Fin 0) = c"
  by (cases c) simp_all

lemma adjust_position_size_Inr:
  assumes "close df \<noteq> []"
  shows "\<exists>df'. adjust_position_size df c f = Inr df'"
proof -
  have "length (Volatility (calculate_volatility df 20)) = length (close df)"
    by (simp add: calculate_volatility_def Let_def length_rolling_std length_pct_change)
  with assms have "Volatility (calculate_volatility df 20) \<noteq> []" by auto
  then show ?thesis by (simp add: adjust_position_size_def Let_def)
qed

lemma trade_step_hold:
  assumes "Signal df ! i = 0" and "ic ! i = NaN"
  shows "trade_step df i (c, pv, ic) = (c, pv[i := c], ic)"
  using assms by (simp add: trade_step_def fadd_zero)

lemma trade_loop_flat_upto:
  assumes "\<forall>i. 1 \<le> i \<and> i \<le> k \<longrightarrow> Signal df ! i = 0"
    and "k < length (close df)"
  shows "trade_loop df c (Suc k) =
     (c, replicate (Suc k) c @ replicate (length (close df) - Suc k) NaN,
      (replicate (length (close df)) NaN)[0 := Fin 0])"
  using assms
proof (induction k)
  case 0
  then obtain m where m: "length (close df) = Suc m" by (cases "length (close df)") auto
  show ?case by (simp add: trade_loop_def m)
next
  case (Suc k)
  let ?n = "length (close df)"
  let ?ic = "(replicate ?n NaN)[0 := Fin 0]"
  from Suc.prems have k: "k < ?n" by simp
  from Suc.prems(1) have below: "\<forall>i. 1 \<le> i \<and> i \<le> k \<longrightarrow> Signal df ! i = 0" by simp
  have step: "trade_loop df c (Suc (Suc k)) = trade_step df (Suc k) (trade_loop df c (Suc k))"
    by (simp add: trade_loop_def)
  have sig: "Signal df ! Suc k = 0" using Suc.prems(1) by simp
  have ic: "?ic ! Suc k = NaN" using Suc.prems(2) by simp
  have upd: "(replicate (Suc k) c @ replicate (?n - Suc k) NaN)[Suc k := c] =
             replicate (Suc (Suc k)) c @ replicate (?n - Suc (Suc k)) NaN"
  proof -
    from Suc.prems(2) obtain d where d: "?n - Suc k = Suc d" "?n - Suc (Suc k) = d"
      by (cases "?n - Suc k") auto
    show ?thesis
      unfolding d by (simp add: list_update_append replicate_append_same)
  qed
  show ?case
    unfolding step Suc.IH [OF below k] trade_step_hold [OF sig ic] upd ..
qed

lemma trade_loop_flat:
  assumes "\<forall>i. 1 \<le> i \<and> i < length (close df) \<longrightarrow> Signal df ! i = 0"
    and "close df \<noteq> []"
  shows "trade_loop df c (length (close df)) =
     (c, replicate (length (close df)) c, (replicate (length (close df)) NaN)[0 := Fin 0])"
proof -
  from assms(2) obtain k where k: "length (close df) = Suc k" by (cases "close df") auto
  then have lt: "k < length (close df)" by simp
  with assms(1) have "\<forall>i. 1 \<le> i \<and> i \<le> k \<longrightarrow> Signal df ! i = 0" by simp
  from trade_loop_flat_upto [OF this lt, of c] show ?thesis
    by (simp add: k)
qed

lemma simulate_trades_flat:
  assumes "\<forall>i. 1 \<le> i \<and> i < length (close df) \<longrightarrow> Signal df ! i = 0"
    and "close df \<noteq> []"
  shows "\<exists>d. simulate_trades df c = Inr d
           \<and> Portfolio_Value d = replicate (length (close df)) c
           \<and> Portfolio_Returns d = pct_change (replicate (length (close df)) c)"
  using assms(2) by (simp add: simulate_trades_def trade_loop_flat [OF assms])

lemma dropna_pct_change_const:
  assumes "c \<noteq> 0"
  shows "dropna (pct_change (replicate (Suc m) (Fin c))) = replicate m (Fin 0)"
  unfolding pct_change_const [OF assms] by (simp add: dropna_def)

lemma metrics_flat:
  assumes "Portfolio_Value d = replicate (Suc (Suc m)) (Fin c)"
    and "Portfolio_Returns d = pct_change (replicate (Suc (Suc m)) (Fin c))"
    and "c \<noteq> 0"
  shows "update_performance_metrics_with_portfolio stock_name d =
     Inr (stock_name,
       [(''Annualized Portfolio Returns'', Fin 0),
        (''Portfolio Volatility'', if m = 0 then NaN else Fin 0),
        (''Sharpe Ratio'', if m = 0 then NaN else NInf),
        (''Maximum Drawdown'', Fin 0),
        (''Final Portfolio Value'', Fin c)])"
proof -
  have r: "dropna (Portfolio_Returns d) = replicate (Suc m) (Fin 0)"
    by (simp only: assms(2) dropna_pct_change_const [OF assms(3)])
  have a: "annualized (replicate (Suc m) (Fin 0)) (Suc m) = Inr (Fin 0)"
    by (rule annualized_flat) simp_all
  have sd: "series_std (replicate (Suc m) (Fin 0)) = (if m = 0 then NaN else Fin 0)"
    using series_std_zeros [of "Suc m"] by (simp del: replicate_Suc)
  show ?thesis
    unfolding update_performance_metrics_with_portfolio_def
      calculate_performance_metrics_portfolio_def r Let_def
    by (simp add: a sd max_drawdown_const [OF assms(3)] assms(1) fsub_def del: replicate_Suc)
qed

lemma enhanced_flat_record:
  assumes "length (close df) < 50" and "length (close df) = Suc (Suc m)" and "c \<noteq> 0"
  shows "(case adjust_position_size (generate_signals (calculate_moving_averages df))
                (Fin c) (Fin (1 / 10)) of
            Inl e \<Rightarrow> Inl e
          | Inr df1 \<Rightarrow>
              (case simulate_trades df1 (Fin c) of
                 Inl e \<Rightarrow> Inl e
               | Inr df2 \<Rightarrow> update_performance_metrics_with_portfolio stock_name df2)) =
     Inr (stock_name,
       [(''Annualized Portfolio Returns'', Fin 0),
        (''Portfolio Volatility'', if m = 0 then NaN else Fin 0),
        (''Sharpe Ratio'', if m = 0 then NaN else NInf),
        (''Maximum Drawdown'', Fin 0),
        (''Final Portfolio Value'', Fin c)])"
proof -
  let ?g = "generate_signals (calculate_moving_averages df)"
  have cg: "close ?g = close df"
    by (simp add: close_generate_signals SMA_calculate_moving_averages)
  with assms(2) have ne: "close ?g \<noteq> []" by auto
  from adjust_position_size_Inr [OF ne]
  obtain df1 where df1: "adjust_position_size ?g (Fin c) (Fin (1 / 10)) = Inr df1" by blast
  note k = adjust_position_size_keeps [OF df1]
  have c1: "close df1 = close df" using k(2) cg by simp
  have s1: "Signal df1 = replicate (length (close df)) 0"
    using k(1) Signal_short [OF assms(1)] by simp
  have flat: "\<forall>i. 1 \<le> i \<and> i < length (close df1) \<longrightarrow> Signal df1 ! i = 0"
    by (simp add: s1 c1)
  have ne1: "close df1 \<noteq> []" using ne k(2) by simp
  from simulate_trades_flat [OF flat ne1, of "Fin c"]
  obtain df2 where df2: "simulate_trades df1 (Fin c) = Inr df2"
      "Portfolio_Value df2 = replicate (Suc (Suc m)) (Fin c)"
      "Portfolio_Returns df2 = pct_change (replicate (Suc (Suc m)) (Fin c))"
    by (auto simp: c1 assms(2))
  show ?thesis
    by (simp add: df1 df2(1) metrics_flat [OF df2(2,3) assms(3)])
qed


section \<open>The backtest of a short series\<close>

lemma close_load_replicate:
  "close (load_and_prepare_data (replicate n (name, x)) name) = replicate n x"
  by (simp add: load_and_prepare_data_def frame_of_def)

lemma close_frame_of: "close (frame_of cl) = cl"
  by (simp add: frame_of_def)

text \<open>
  C8, amended. For a series of fewer than 50 bars every signal is 0 and the 50-bar
  average is \<open>NaN\<close> at every bar. The simple variant returns a record for a
  series of at least one bar, with the annualized strategy return 0. With a finite
  initial capital other than 0, the portfolio variant returns a record for a series of
  at least two bars: annualized return 0, maximum drawdown 0, the initial capital as
  final value, and volatility 0 and Sharpe ratio \<open>-inf\<close> (both
  \<open>NaN\<close> for exactly two bars).
\<close>

theorem short_series_backtest:
  assumes "df = load_and_prepare_data data stock_name"
    and "length (close df) < 50"
  shows "Signal (generate_signals (calculate_moving_averages df)) = replicate (length (close df)) 0
       \<and> SMA_50 (calculate_moving_averages df) = replicate (length (close df)) NaN
       \<and> (0 < length (close df) \<longrightarrow>
            field ''Annualized Strategy Returns'' (run_strategy data stock_name) = Some (Fin 0))
       \<and> (2 \<le> length (close df) \<and> c \<noteq> 0 \<longrightarrow>
            run_strategy_with_enhancements data stock_name (Fin c) =
              Inr (stock_name,
                [(''Annualized Portfolio Returns'', Fin 0),
                 (''Portfolio Volatility'', if length (close df) = 2 then NaN else Fin 0),
                 (''Sharpe Ratio'', if length (close df) = 2 then NaN else NInf),
                 (''Maximum Drawdown'', Fin 0),
                 (''Final Portfolio Value'', Fin c)]))"
proof -
  have a: "Signal (generate_signals (calculate_moving_averages df)) =
           replicate (length (close df)) 0"
    by (rule Signal_short [OF assms(2)])
  have b: "SMA_50 (calculate_moving_averages df) = replicate (length (close df)) NaN"
    by (rule SMA_50_short [OF assms(2)])
  have c: "field ''Annualized Strategy Returns'' (run_strategy data stock_name) = Some (Fin 0)"
    if "0 < length (close df)"
    using simple_flat_annualized [OF assms(2) that, of stock_name]
    by (simp add: run_strategy_def assms(1))
  have d: "run_strategy_with_enhancements data stock_name (Fin c) =
              Inr (stock_name,
                [(''Annualized Portfolio Returns'', Fin 0),
                 (''Portfolio Volatility'', if length (close df) = 2 then NaN else Fin 0),
                 (''Sharpe Ratio'', if length (close df) = 2 then NaN else NInf),
                 (''Maximum Drawdown'', Fin 0),
                 (''Final Portfolio Value'', Fin c)])"
    if "2 \<le> length (close df)" and "c \<noteq> 0"
  proof -
    from that(1) obtain m where m: "length (close df) = Suc (Suc m)"
      by (metis Suc_le_D numeral_2_eq_2 Suc_le_mono)
    from enhanced_flat_record [OF assms(2) m that(2), of stock_name] show ?thesis
      by (simp add: run_strategy_with_enhancements_def assms(1) [symmetric] m)
  qed
  from a b c d show ?thesis by blast
qed

theorem short_series_backtest_witness:
  "length (close (load_and_prepare_data
      [(''S'', Fin 10), (''T'', Fin 7), (''S'', Fin 11), (''S'', Fin 12)] ''S'')) < 50
   \<and> Signal (generate_signals (calculate_moving_averages (load_and_prepare_data
      [(''S'', Fin 10), (''T'', Fin 7), (''S'', Fin 11), (''S'', Fin 12)] ''S''))) = [0, 0, 0]
   \<and> field ''Annualized Strategy Returns'' (run_strategy
      [(''S'', Fin 10), (''T'', Fin 7), (''S'', Fin 11), (''S'', Fin 12)] ''S'') = Some (Fin 0)
   \<and> run_strategy_with_enhancements
      [(''S'', Fin 10), (''T'', Fin 7), (''S'', Fin 11), (''S'', Fin 12)] ''S'' (Fin 100000) =
        Inr (''S'',
          [(''Annualized Portfolio Returns'', Fin 0),
           (''Portfolio Volatility'', Fin 0),
           (''Sharpe Ratio'', NInf),
           (''Maximum Drawdown'', Fin 0),
           (''Final Portfolio Value'', Fin 100000)])"
proof -
  let ?data = "[(''S'', Fin 10), (''T'', Fin 7), (''S'', Fin 11), (''S'', Fin (12::real))]"
  let ?df = "load_and_prepare_data ?data ''S''"
  have cl: "close ?df = [Fin 10, Fin 11, Fin 12]"
    by (simp add: load_and_prepare_data_def frame_of_def)
  have h: "length (close ?df) < 50" by (simp add: cl)
  from short_series_backtest [OF refl h, of 100000]
  have "Signal (generate_signals (calculate_moving_averages ?df)) = replicate (length (close ?df)) 0"
    and "field ''Annualized Strategy Returns'' (run_strategy ?data ''S'') = Some (Fin 0)"
    and "run_strategy_with_enhancements ?data ''S'' (Fin 100000) =
        Inr (''S'',
          [(''Annualized Portfolio Returns'', Fin 0),
           (''Portfolio Volatility'', if length (close ?df) = 2 then NaN else Fin 0),
           (''Sharpe Ratio'', if length (close ?df) = 2 then NaN else NInf),
           (''Maximum Drawdown'', Fin 0),
           (''Final Portfolio Value'', Fin 100000)])"
    by (simp_all add: cl)
  with h show ?thesis by (simp add: cl numeral_3_eq_3)
qed

text \<open>
  C8 as stated fails on 20 bars at the price 10: the 20-bar average is defined at bar 19,
  and every numeric field of the record of the portfolio variant is a number or an
  infinity, none is \<open>NaN\<close>.
\<close>

theorem short_series_backtest_counterexample:
  "SMA_20 (calculate_moving_averages
      (load_and_prepare_data (replicate 20 (''S'', Fin 10)) ''S'')) ! 19 = Fin 10
   \<and> run_strategy_with_enhancements (replicate 20 (''S'', Fin 10)) ''S'' (Fin 100000) =
        Inr (''S'',
          [(''Annualized Portfolio Returns'', Fin 0),
           (''Portfolio Volatility'', Fin 0),
           (''Sharpe Ratio'', NInf),
           (''Maximum Drawdown'', Fin 0),
           (''Final Portfolio Value'', Fin 100000)])"
proof -
  let ?df = "load_and_prepare_data (replicate 20 (''S'', Fin 10)) ''S''"
  have cl: "close ?df = replicate 20 (Fin 10)" by (rule close_load_replicate)
  have "trailing_mean 20 (replicate 20 (Fin 10)) 19 = Fin 10"
    by (rule trailing_mean_const) simp_all
  then have a: "SMA_20 (calculate_moving_averages ?df) ! 19 = Fin 10"
    by (simp add: SMA_calculate_moving_averages cl rolling_mean_nth)
  have l: "length (close ?df) < 50" "length (close ?df) = Suc (Suc 18)"
    by (simp_all add: cl)
  from enhanced_flat_record [OF l, of 100000 "''S''"]
  have b: "run_strategy_with_enhancements (replicate 20 (''S'', Fin 10)) ''S'' (Fin 100000) =
        Inr (''S'',
          [(''Annualized Portfolio Returns'', Fin 0),
           (''Portfolio Volatility'', Fin 0),
           (''Sharpe Ratio'', NInf),
           (''Maximum Drawdown'', Fin 0),
           (''Final Portfolio Value'', Fin 100000)])"
    by (simp add: run_strategy_with_enhancements_def)
  from a b show ?thesis by blast
qed

text \<open>A series of one bar: the portfolio variant raises, and the batch ends there.\<close>

lemma pct_change_single: "pct_change [x] = [NaN]"
  by (cases x) (simp_all add: pct_change_def ffill_def shift1_def fsub_def)

lemma enhanced_single_bar_raises:
  assumes "length (close (load_and_prepare_data data stock_name)) = 1"
  shows "run_strategy_with_enhancements data stock_name c = Inl ZeroDivisionError"
proof -
  let ?df = "load_and_prepare_data data stock_name"
  let ?g = "generate_signals (calculate_moving_averages ?df)"
  have cg: "close ?g = close ?df"
    by (simp add: close_generate_signals SMA_calculate_moving_averages)
  with assms have ne: "close ?g \<noteq> []" by auto
  from adjust_position_size_Inr [OF ne]
  obtain df1 where df1: "adjust_position_size ?g c (Fin (1 / 10)) = Inr df1" by blast
  note k = adjust_position_size_keeps [OF df1]
  have l1: "length (close df1) = 1" using k(2) cg assms by simp
  then have flat: "\<forall>i. 1 \<le> i \<and> i < length (close df1) \<longrightarrow> Signal df1 ! i = 0" by simp
  have ne1: "close df1 \<noteq> []" using l1 by auto
  from simulate_trades_flat [OF flat ne1, of c]
  obtain df2 where df2: "simulate_trades df1 c = Inr df2"
      "Portfolio_Returns df2 = pct_change [c]"
    by (auto simp: l1)
  have "update_performance_metrics_with_portfolio stock_name df2 = Inl ZeroDivisionError"
    by (simp add: update_performance_metrics_with_portfolio_def
        calculate_performance_metrics_portfolio_def df2(2) pct_change_single dropna_def
        annualized_def Let_def)
  then show ?thesis
    by (simp add: run_strategy_with_enhancements_def df1 df2(1))
qed

lemma batch_single_bar_raises:
  "run_all_stocks_with_enhancements [(''A'', Fin 10), (''B'', Fin 1), (''B'', Fin 2)] (Fin 100000)
     = Inl ZeroDivisionError"
proof -
  have "run_strategy_with_enhancements [(''A'', Fin 10), (''B'', Fin 1), (''B'', Fin 2)] ''A''
          (Fin 100000) = Inl ZeroDivisionError"
    by (rule enhanced_single_bar_raises) (simp add: load_and_prepare_data_def frame_of_def)
  then show ?thesis
    by (simp add: run_all_stocks_with_enhancements_def unique_def)
qed


section \<open>The position sizer on a degenerate volatility\<close>

lemma not_finite_fdiv: "\<not> isfinite a \<Longrightarrow> \<not> isfinite (fdiv a b)"
  by (cases a; cases b) auto

lemma fmul_NaN_right: "fmul a NaN = NaN"
  by (cases a) simp_all

lemma not_finite_fmul: "\<not> isfinite b \<Longrightarrow> \<not> isfinite (fmul a b)"
  by (cases a; cases b) auto

lemma adjust_position_size_result:
  assumes "adjust_position_size df initial_capital fixed_fraction = Inr df'"
  shows "Volatility df' = Volatility (calculate_volatility df 20)"
    and "Position_Size df' =
           replicate (length (close df))
             (fmul (fmul initial_capital fixed_fraction)
                (fdiv (fdiv (Fin 1) (last (Volatility df'))) (series_max (Volatility df'))))"
  using assms
  by (auto simp: adjust_position_size_def Let_def calculate_volatility_def split: if_splits)

text \<open>
  C9, amended. On a frame with at least one bar the sizer raises nothing and returns the
  frame. When the most recent volatility is 0 or \<open>NaN\<close>, every entry of the
  \<open>Position Size\<close> column it writes is \<open>NaN\<close> or an infinity, never a
  finite number, and it is \<open>NaN\<close> when the volatility is.
\<close>

theorem adjust_position_size_degenerate:
  assumes "close df \<noteq> []"
  shows "\<exists>df'. adjust_position_size df initial_capital fixed_fraction = Inr df'
       \<and> length (Position_Size df') = length (close df)
       \<and> (last (Volatility df') = NaN \<or> last (Volatility df') = Fin 0 \<longrightarrow>
            (\<forall>x \<in> set (Position_Size df'). \<not> isfinite x))
       \<and> (last (Volatility df') = NaN \<longrightarrow> (\<forall>x \<in> set (Position_Size df'). x = NaN))"
proof -
  from adjust_position_size_Inr [OF assms]
  obtain df' where r: "adjust_position_size df initial_capital fixed_fraction = Inr df'"
    by blast
  let ?v = "fmul (fmul initial_capital fixed_fraction)
              (fdiv (fdiv (Fin 1) (last (Volatility df'))) (series_max (Volatility df')))"
  have ps: "Position_Size df' = replicate (length (close df)) ?v"
    by (rule adjust_position_size_result(2) [OF r])
  have nf: "\<not> isfinite ?v"
    if "last (Volatility df') = NaN \<or> last (Volatility df') = Fin 0"
  proof -
    from that have "\<not> isfinite (fdiv (Fin 1) (last (Volatility df')))"
      by auto
    then have "\<not> isfinite (fdiv (fdiv (Fin 1) (last (Volatility df')))
                   (series_max (Volatility df')))"
      by (rule not_finite_fdiv)
    then show ?thesis
      by (rule not_finite_fmul)
  qed
  have nan: "?v = NaN" if "last (Volatility df') = NaN"
    by (simp add: that fmul_NaN_right)
  have "length (Position_Size df') = length (close df)
       \<and> (last (Volatility df') = NaN \<or> last (Volatility df') = Fin 0 \<longrightarrow>
            (\<forall>x \<in> set (Position_Size df'). \<not> isfinite x))
       \<and> (last (Volatility df') = NaN \<longrightarrow> (\<forall>x \<in> set (Position_Size df'). x = NaN))"
    unfolding ps using nf nan by auto
  with r show ?thesis by blast
qed

theorem adjust_position_size_degenerate_witness:
  "close ((frame_of [Fin 10, Fin 11])\<lparr>Signal := [0, 0]\<rparr>) \<noteq> []
   \<and> adjust_position_size ((frame_of [Fin 10, Fin 11])\<lparr>Signal := [0, 0]\<rparr>)
       (Fin 100000) (Fin (1 / 10))
     = Inr ((frame_of [Fin 10, Fin 11])\<lparr>Signal := [0, 0], Daily_Returns := [NaN, Fin (1 / 10)],
            Volatility := [NaN, NaN], Position_Size := [NaN, NaN]\<rparr>)
   \<and> last (Volatility ((frame_of [Fin 10, Fin 11])\<lparr>Signal := [0, 0],
            Daily_Returns := [NaN, Fin (1 / 10)],
            Volatility := [NaN, NaN], Position_Size := [NaN, NaN]\<rparr>)) = NaN
   \<and> list_all (\<lambda>x. x = NaN \<and> \<not> isfinite x)
        (Position_Size ((frame_of [Fin 10, Fin 11])\<lparr>Signal := [0, 0],
            Daily_Returns := [NaN, Fin (1 / 10)],
            Volatility := [NaN, NaN], Position_Size := [NaN, NaN]\<rparr>))"
proof -
  let ?w = "(frame_of [Fin 10, Fin 11])\<lparr>Signal := [0, 0]\<rparr>"
  let ?w' = "(frame_of [Fin 10, Fin 11])\<lparr>Signal := [0, 0], Daily_Returns := [NaN, Fin (1 / 10)],
            Volatility := [NaN, NaN], Position_Size := [NaN, NaN]\<rparr>"
  have h: "close ?w \<noteq> []" by (simp add: frame_of_def)
  have ev: "adjust_position_size ?w (Fin 100000) (Fin (1 / 10)) = Inr ?w'"
    by (simp add: adjust_position_size_def calculate_volatility_def frame_of_def pct_change_def
        ffill_def shift1_def fsub_def rolling_std_short Let_def numeral_2_eq_2)
  have l: "last (Volatility ?w') = NaN" by simp
  from adjust_position_size_degenerate [OF h, of "Fin 100000" "Fin (1 / 10)"]
  obtain df' where d: "adjust_position_size ?w (Fin 100000) (Fin (1 / 10)) = Inr df'"
      "last (Volatility df') = NaN \<or> last (Volatility df') = Fin 0 \<longrightarrow>
         (\<forall>x \<in> set (Position_Size df'). \<not> isfinite x)"
      "last (Volatility df') = NaN \<longrightarrow> (\<forall>x \<in> set (Position_Size df'). x = NaN)"
    by blast
  from d(1) ev have "df' = ?w'" by simp
  with d(2,3) l
  have "\<forall>x \<in> set (Position_Size ?w'). x = NaN \<and> \<not> isfinite x" by blast
  then have "list_all (\<lambda>x. x = NaN \<and> \<not> isfinite x) (Position_Size ?w')"
    unfolding list_all_iff .
  with h ev l show ?thesis by blast
qed

lemma close_calculate_volatility: "close (calculate_volatility df w) = close df"
  by (simp add: calculate_volatility_def Let_def)

lemma rolling_std_21:
  "rolling_std 20 (NaN # replicate 20 (Fin 0)) = replicate 20 NaN @ [Fin 0]"
  by (simp add: rolling_std_def prep_values_def Let_def upt_conv_Cons sample_std_def
      eval_nat_numeral)

lemma volatility_21:
  assumes "close df = replicate 21 (Fin 10)"
  shows "Volatility (calculate_volatility df 20) = replicate 20 NaN @ [Fin 0]"
proof -
  have "pct_change (replicate 21 (Fin 10)) = NaN # replicate 20 (Fin 0)"
    using pct_change_const [of 10 20] by simp
  then show ?thesis
    by (simp add: calculate_volatility_def Let_def assms rolling_std_21)
qed

text \<open>
  C9 as stated fails on 21 bars at the price 10, whose most recent volatility is 0: the
  position size is \<open>+inf\<close>, not undefined, and the run of the instrument ends
  with a record whose fields are defined, the final value being the initial capital.
\<close>

theorem adjust_position_size_degenerate_counterexample:
  "position_sizes (adjust_position_size
      (generate_signals (calculate_moving_averages
        (load_and_prepare_data (replicate 21 (''S'', Fin 10)) ''S'')))
      (Fin 100000) (Fin (1 / 10))) = Inr (replicate 21 PInf)
   \<and> run_strategy_with_enhancements (replicate 21 (''S'', Fin 10)) ''S'' (Fin 100000) =
        Inr (''S'',
          [(''Annualized Portfolio Returns'', Fin 0),
           (''Portfolio Volatility'', Fin 0),
           (''Sharpe Ratio'', NInf),
           (''Maximum Drawdown'', Fin 0),
           (''Final Portfolio Value'', Fin 100000)])"
proof -
  let ?df = "load_and_prepare_data (replicate 21 (''S'', Fin 10)) ''S''"
  let ?g = "generate_signals (calculate_moving_averages ?df)"
  have cl: "close ?df = replicate 21 (Fin 10)" by (rule close_load_replicate)
  have cg: "close ?g = replicate 21 (Fin 10)"
    by (simp add: close_generate_signals SMA_calculate_moving_averages cl)
  have v: "Volatility (calculate_volatility ?g 20) = replicate 20 NaN @ [Fin 0]"
    by (rule volatility_21 [OF cg])
  have mx: "series_max (replicate 20 NaN @ [Fin 0]) = Fin 0"
    by (simp add: series_max_def dropna_def)
  have a: "position_sizes (adjust_position_size ?g (Fin 100000) (Fin (1 / 10))) =
           Inr (replicate 21 PInf)"
    by (simp add: position_sizes_def adjust_position_size_def Let_def v mx
        close_calculate_volatility cg)
  have l: "length (close ?df) < 50" "length (close ?df) = Suc (Suc 19)"
    by (simp_all add: cl)
  from enhanced_flat_record [OF l, of 100000 "''S''"]
  have b: "run_strategy_with_enhancements (replicate 21 (''S'', Fin 10)) ''S'' (Fin 100000) =
        Inr (''S'',
          [(''Annualized Portfolio Returns'', Fin 0),
           (''Portfolio Volatility'', Fin 0),
           (''Sharpe Ratio'', NInf),
           (''Maximum Drawdown'', Fin 0),
           (''Final Portfolio Value'', Fin 100000)])"
    by (simp add: run_strategy_with_enhancements_def)
  from a b show ?thesis by blast
qed

section \<open>A run with one buy\<close>

lemma length_prices52: "length prices52 = 52"
  by (simp add: prices52_def)

lemma sma52:
  "SMA_20 (calculate_moving_averages (frame_of prices52)) ! 49 = Fin 9"
  "SMA_50 (calculate_moving_averages (frame_of prices52)) ! 49 = Fin (48 / 5)"
  "SMA_20 (calculate_moving_averages (frame_of prices52)) ! 50 = Fin (271 / 20)"
  "SMA_50 (calculate_moving_averages (frame_of prices52)) ! 50 = Fin (57 / 5)"
  "SMA_20 (calculate_moving_averages (frame_of prices52)) ! 51 = Fin (93 / 5)"
  "SMA_50 (calculate_moving_averages (frame_of prices52)) ! 51 = Fin (67 / 5)"
  by (simp_all add: SMA_calculate_moving_averages close_frame_of rolling_mean_nth prices52_def
      trailing_mean_def Let_def upt_conv_Cons eval_nat_numeral nth_append)

lemma Signal_before_long_window:
  assumes "i < length (close df)" and "i \<le> 49"
  shows "Signal (generate_signals (calculate_moving_averages df)) ! i = 0"
proof (cases "Suc 0 \<le> i")
  case False
  with assms(1) show ?thesis
    by (simp add: Signal_generate_signals_nth SMA_calculate_moving_averages)
next
  case True
  let ?m = "calculate_moving_averages df"
  from True assms have "i - 1 < length (close df)" "i - 1 + 1 < 50" by simp_all
  then have "SMA_50 ?m ! (i - 1) = NaN"
    by (simp add: SMA_calculate_moving_averages rolling_mean_nth)
  then have "\<not> cross_up ?m i \<and> \<not> cross_down ?m i"
    by (simp add: cross_up_def cross_down_def fgt_def flt_NaN)
  with assms(1) show ?thesis
    by (simp add: Signal_generate_signals_nth SMA_calculate_moving_averages)
qed

lemma Signal52:
  "Signal (generate_signals (calculate_moving_averages (frame_of prices52))) ! 50 = 1"
  "Signal (generate_signals (calculate_moving_averages (frame_of prices52))) ! 51 = 0"
  by (simp_all add: Signal_generate_signals_nth SMA_calculate_moving_averages(3) close_frame_of
      length_prices52 cross_up_def cross_down_def fgt_def sma52)

lemma close52:
  "close (generate_signals (calculate_moving_averages (frame_of prices52))) = prices52"
  by (simp add: close_generate_signals SMA_calculate_moving_averages close_frame_of)

text \<open>The loop before the buy, after the buy at bar 50 and after the hold at bar 51.\<close>

lemma trade_loop52_before_buy:
  "trade_loop (generate_signals (calculate_moving_averages (frame_of prices52))) (Fin 100000) 50 =
     (Fin 100000, replicate 50 (Fin 100000) @ replicate 2 NaN, (replicate 52 NaN)[0 := Fin 0])"
proof -
  let ?g = "generate_signals (calculate_moving_averages (frame_of prices52))"
  have flat: "\<forall>i. 1 \<le> i \<and> i \<le> 49 \<longrightarrow> Signal ?g ! i = 0"
    using Signal_before_long_window [of _ "frame_of prices52"]
    by (simp add: close_frame_of length_prices52)
  have "trade_loop ?g (Fin 100000) (Suc 49) =
     (Fin 100000, replicate (Suc 49) (Fin 100000) @ replicate (length (close ?g) - Suc 49) NaN,
      (replicate (length (close ?g)) NaN)[0 := Fin 0])"
    by (rule trade_loop_flat_upto [OF flat]) (simp add: close52 length_prices52)
  then show ?thesis
    by (simp add: close52 length_prices52)
qed

lemma trade_loop52_after_buy:
  "trade_loop (generate_signals (calculate_moving_averages (frame_of prices52))) (Fin 100000) 51 =
     (Fin 0, (replicate 50 (Fin 100000) @ replicate 2 NaN)[50 := Fin 100000],
      (replicate 52 NaN)[0 := Fin 0, 50 := Fin 100000])"
proof -
  let ?g = "generate_signals (calculate_moving_averages (frame_of prices52))"
  have "prices52 ! 50 = Fin 100"
    by (simp add: prices52_def nth_append)
  then have c50: "close ?g ! 50 = Fin 100"
    by (simp only: close52)
  let ?ic0 = "(replicate 52 NaN)[0 := Fin 0]"
  let ?pv50 = "replicate 50 (Fin 100000) @ replicate 2 NaN"
  have s51: "trade_loop ?g (Fin 100000) 51 = trade_step ?g 50 (trade_loop ?g (Fin 100000) 50)"
    using upt_Suc_append [of 1 50] by (simp add: trade_loop_def)
  have buy: "trade_step ?g 50 (Fin 100000, ?pv50, ?ic0) =
      (Fin 0, ?pv50[50 := Fin 100000], ?ic0[50 := Fin 100000])"
    by (simp add: trade_step_def Signal52(1) c50 fsub_def)
  show ?thesis
    unfolding s51 trade_loop52_before_buy buy ..
qed

lemma trade_loop52:
  "trade_loop (generate_signals (calculate_moving_averages (frame_of prices52))) (Fin 100000) 52 =
     (Fin 0, replicate 51 (Fin 100000) @ [Fin 0],
      (replicate 52 NaN)[0 := Fin 0, 50 := Fin 100000])"
proof -
  let ?g = "generate_signals (calculate_moving_averages (frame_of prices52))"
  let ?ic0 = "(replicate 52 NaN)[0 := Fin 0]"
  let ?pv50 = "replicate 50 (Fin 100000) @ replicate 2 NaN"
  have s52: "trade_loop ?g (Fin 100000) 52 = trade_step ?g 51 (trade_loop ?g (Fin 100000) 51)"
    using upt_Suc_append [of 1 51] by (simp add: trade_loop_def)
  have ic51: "(?ic0[50 := Fin 100000]) ! 51 = NaN" by simp
  have hold: "trade_step ?g 51 (Fin 0, ?pv50[50 := Fin 100000], ?ic0[50 := Fin 100000]) =
      (Fin 0, ?pv50[50 := Fin 100000, 51 := Fin 0], ?ic0[50 := Fin 100000])"
    by (rule trade_step_hold [OF Signal52(2) ic51])
  have r51: "replicate 51 (Fin 100000) = replicate 50 (Fin 100000) @ [Fin 100000]"
    using replicate_add [of 50 1 "Fin 100000"] by simp
  have pv: "?pv50[50 := Fin 100000, 51 := Fin 0] = replicate 51 (Fin 100000) @ [Fin 0]"
    by (simp add: r51 list_update_append numeral_2_eq_2)
  show ?thesis
    unfolding s52 trade_loop52_after_buy hold pv ..
qed

lemma load_and_prepare_data_single:
  "load_and_prepare_data (map (Pair name) xs) name = frame_of xs"
proof -
  have "filter (\<lambda>row. fst row = name) (map (Pair name) xs) = map (Pair name) xs"
    by (induction xs) simp_all
  then show ?thesis by (simp add: load_and_prepare_data_def comp_def)
qed

lemma portfolio_columns_Inr:
  assumes "portfolio_columns r = Inr (pv, ic, pr)"
  shows "\<exists>d. r = Inr d \<and> Portfolio_Value d = pv \<and> Invested_Capital d = ic
           \<and> Portfolio_Returns d = pr"
  using assms by (cases r) (simp_all add: portfolio_columns_def)

lemma portfolio_columns52:
  "portfolio_columns (simulate_trades
      (generate_signals (calculate_moving_averages (frame_of prices52))) (Fin 100000)) =
     Inr (replicate 51 (Fin 100000) @ [Fin 0],
          replicate 50 (Fin 0) @ [Fin 100000, Fin 100000],
          NaN # replicate 50 (Fin 0) @ [Fin (- 1)])"
proof -
  let ?g = "generate_signals (calculate_moving_averages (frame_of prices52))"
  have cl: "close ?g = prices52"
    by (simp add: close_generate_signals SMA_calculate_moving_averages close_frame_of)
  have ne: "close ?g \<noteq> []" and len: "length (close ?g) = 52"
    unfolding cl by (simp_all add: prices52_def)
  have ff: "ffill ((replicate 52 NaN)[0 := Fin 0, 50 := Fin 100000]) =
            replicate 50 (Fin 0) @ [Fin 100000, Fin 100000]"
    by (simp add: ffill_def eval_nat_numeral)
  have pc: "pct_change (replicate 51 (Fin 100000) @ [Fin 0]) =
            NaN # replicate 50 (Fin 0) @ [Fin (- 1)]"
    by (simp add: pct_change_def ffill_def shift1_def fsub_def eval_nat_numeral)
  show ?thesis
    using ne by (simp add: portfolio_columns_def simulate_trades_def len trade_loop52 ff pc)
qed

text \<open>
  C2, on the whole pipeline of the portfolio variant at the series \<open>prices52\<close>
  with the initial capital 100000. The only signal is the buy at bar 50, which moves the whole
  cash into the position. At the hold bar 51 the loop finds
  \<open>Invested Capital[51]\<close> still unset and adds 0 to the cash: the portfolio value
  of bar 51 is 0, and so is the final portfolio value of the run. The forward fill that
  follows the loop sets the invested capital of bar 51 to 100000: the value of the bar
  is not its cash (0) plus its invested capital (100000).
\<close>

theorem run_strategy_with_enhancements_loses_position:
  "portfolio_columns (simulate_trades
      (generate_signals (calculate_moving_averages
        (load_and_prepare_data (map (Pair ''S'') prices52) ''S''))) (Fin 100000)) =
     Inr (replicate 51 (Fin 100000) @ [Fin 0],
          replicate 50 (Fin 0) @ [Fin 100000, Fin 100000],
          NaN # replicate 50 (Fin 0) @ [Fin (- 1)])
   \<and> cash_at (generate_signals (calculate_moving_averages
        (load_and_prepare_data (map (Pair ''S'') prices52) ''S''))) (Fin 100000) 51 = Fin 0
   \<and> field ''Final Portfolio Value''
        (run_strategy_with_enhancements (map (Pair ''S'') prices52) ''S'' (Fin 100000)) =
       Some (Fin 0)"
proof -
  let ?g = "generate_signals (calculate_moving_averages (frame_of prices52))"
  have cl: "close ?g = prices52"
    by (simp add: close_generate_signals SMA_calculate_moving_averages close_frame_of)
  have ne: "close ?g \<noteq> []" unfolding cl by (simp add: prices52_def)
  have cash: "cash_at ?g (Fin 100000) 51 = Fin 0"
    using trade_loop52 by (simp add: cash_at_def)
  from adjust_position_size_Inr [OF ne]
  obtain df1 where df1: "adjust_position_size ?g (Fin 100000) (Fin (1 / 10)) = Inr df1" by blast
  note k = adjust_position_size_keeps [OF df1]
  have "portfolio_columns (simulate_trades df1 (Fin 100000)) =
        portfolio_columns (simulate_trades ?g (Fin 100000))"
    by (rule simulate_trades_cong [OF k])
  from portfolio_columns_Inr [OF this [unfolded portfolio_columns52]]
  obtain d where d: "simulate_trades df1 (Fin 100000) = Inr d"
      "Portfolio_Value d = replicate 51 (Fin 100000) @ [Fin 0]"
      "Portfolio_Returns d = NaN # replicate 50 (Fin 0) @ [Fin (- 1)]"
    by blast
  have dn: "dropna (Portfolio_Returns d) = replicate 50 (Fin 0) @ [Fin (- 1)]"
    by (simp add: d(3) dropna_def)
  obtain a where a: "annualized (dropna (Portfolio_Returns d))
      (length (dropna (Portfolio_Returns d))) = Inr a"
    using annualized_Inr [of "length (dropna (Portfolio_Returns d))"] by (auto simp: dn)
  have "field ''Final Portfolio Value''
          (update_performance_metrics_with_portfolio ''S'' d) = Some (Fin 0)"
    by (simp add: field_def update_performance_metrics_with_portfolio_def
        calculate_performance_metrics_portfolio_def Let_def a d(2))
  then have fpv: "field ''Final Portfolio Value''
        (run_strategy_with_enhancements (map (Pair ''S'') prices52) ''S'' (Fin 100000)) =
       Some (Fin 0)"
    by (simp add: run_strategy_with_enhancements_def load_and_prepare_data_single df1 d(1))
  from portfolio_columns52 cash fpv show ?thesis
    by (simp add: load_and_prepare_data_single)
qed

section \<open>Further properties of the portfolio simulator\<close>

text \<open>
  A buy with a finite cash at a finite price other than 0 always executes, commits the
  whole cash and leaves none: the position size has no part in it.
\<close>

lemma trade_step_buy_all_cash:
  assumes "Signal df ! i = 1" and "close df ! i = Fin p" and "p \<noteq> 0" and "i < length ic"
  shows "trade_step df i (Fin c, pv, ic) = (Fin 0, pv[i := Fin c], ic[i := Fin c])"
  using assms by (simp add: trade_step_def fsub_def)

text \<open>
  The half of the value continuity that holds: the loop writes
  \<open>Invested Capital[i]\<close> only at a bar with a signal, so after the forward fill a
  bar with signal 0 has the invested capital of the bar before.
\<close>

lemma length_trade_step:
  "trade_step df i (c, pv, ic) = (c', pv', ic') \<Longrightarrow> length ic' = length ic"
  by (auto simp: trade_step_def Let_def split: if_splits)

lemma trade_step_ic_other:
  "trade_step df i (c, pv, ic) = (c', pv', ic') \<Longrightarrow> j \<noteq> i \<Longrightarrow> ic' ! j = ic ! j"
  by (auto simp: trade_step_def Let_def split: if_splits)

lemma trade_step_ic_hold:
  "trade_step df i (c, pv, ic) = (c', pv', ic') \<Longrightarrow> Signal df ! i = 0 \<Longrightarrow> ic' = ic"
  by (auto simp: trade_step_def Let_def split: if_splits)

lemma fold_trade_step_ic:
  assumes "fold (trade_step df) [Suc 0..<k] (c, pv, ic) = (c', pv', ic')"
    and "Suc 0 \<le> j" and "Signal df ! j = 0"
  shows "length ic' = length ic \<and> ic' ! j = ic ! j"
  using assms(1)
proof (induction k arbitrary: c' pv' ic')
  case 0
  then show ?case by simp
next
  case (Suc k)
  show ?case
  proof (cases "Suc 0 \<le> k")
    case False
    with Suc.prems show ?thesis by simp
  next
    case True
    obtain c1 pv1 ic1 where s: "fold (trade_step df) [Suc 0..<k] (c, pv, ic) = (c1, pv1, ic1)"
      by (cases "fold (trade_step df) [Suc 0..<k] (c, pv, ic)") auto
    from Suc.IH [OF s] have ih: "length ic1 = length ic" "ic1 ! j = ic ! j" by simp_all
    from Suc.prems True s have t: "trade_step df k (c1, pv1, ic1) = (c', pv', ic')" by simp
    have "ic' ! j = ic1 ! j"
    proof (cases "j = k")
      case True
      with trade_step_ic_hold [OF t] assms(3) show ?thesis by simp
    next
      case False
      with trade_step_ic_other [OF t] show ?thesis by simp
    qed
    with ih length_trade_step [OF t] show ?thesis by simp
  qed
qed

lemma length_ffill: "length (ffill xs) = length xs"
  by (simp add: ffill_def length_ffill_from)

lemma ffill_from_nth:
  "i < length xs \<Longrightarrow> ffill_from p xs ! i =
     (if notna (xs ! i) then xs ! i else if i = 0 then p else ffill_from p xs ! (i - 1))"
proof (induction xs arbitrary: p i)
  case Nil
  then show ?case by simp
next
  case (Cons x xs)
  show ?case
  proof (cases i)
    case 0
    then show ?thesis by simp
  next
    case (Suc j)
    with Cons.prems have j: "j < length xs" by simp
    show ?thesis
    proof (cases j)
      case 0
      with Suc j show ?thesis
        by (cases xs) auto
    next
      case (Suc m)
      with Cons.IH [OF j] \<open>i = Suc j\<close> show ?thesis by simp
    qed
  qed
qed

lemma simulate_trades_hold_forward_fill:
  assumes "simulate_trades df initial_capital = Inr d"
    and "1 \<le> i" and "i < length (close df)" and "Signal df ! i = 0"
  shows "Invested_Capital d ! i = Invested_Capital d ! (i - 1)"
proof -
  let ?n = "length (close df)"
  obtain c pv ic where l: "trade_loop df initial_capital ?n = (c, pv, ic)"
    by (cases "trade_loop df initial_capital ?n") auto
  from assms(1) l have d: "Invested_Capital d = ffill ic"
    by (auto simp: simulate_trades_def split: if_splits)
  from l have "fold (trade_step df) [Suc 0..<?n]
      (initial_capital, (replicate ?n NaN)[0 := initial_capital], (replicate ?n NaN)[0 := Fin 0])
      = (c, pv, ic)"
    by (simp add: trade_loop_def)
  from fold_trade_step_ic [OF this _ assms(4)] assms(2,3)
  have ic: "length ic = ?n" "ic ! i = NaN" by simp_all
  with assms(2,3) ffill_from_nth [of i ic NaN] show ?thesis
    by (simp add: d ffill_def)
qed

section \<open>A run of the simple variant with one buy\<close>

lemma Signal52_column:
  "Signal (generate_signals (calculate_moving_averages (frame_of prices52))) =
     replicate 50 0 @ [1, 0]"
proof -
  let ?g = "generate_signals (calculate_moving_averages (frame_of prices52))"
  have len: "length (Signal ?g) = 52"
    by (simp add: length_Signal_generate_signals SMA_calculate_moving_averages close_frame_of
        length_prices52)
  have "Signal ?g ! i = (replicate 50 0 @ [1, 0]) ! i" if "i < 52" for i
  proof -
    have "i \<le> 49 \<or> i = 50 \<or> i = 51" using that by arith
    then show ?thesis
    proof (elim disjE)
      assume a: "i \<le> 49"
      then have "Signal ?g ! i = 0"
        using Signal_before_long_window [of i "frame_of prices52"]
        by (simp add: close_frame_of length_prices52)
      with a show ?thesis by (simp add: nth_append)
    next
      assume "i = 50"
      then show ?thesis by (simp add: Signal52 nth_append)
    next
      assume "i = 51"
      then show ?thesis by (simp add: Signal52 nth_append)
    qed
  qed
  with len show ?thesis by (simp add: list_eq_iff_nth_eq)
qed

lemma Position52_column:
  "Position (update_position
      (generate_signals (calculate_moving_averages (frame_of prices52)))) =
     replicate 50 0 @ [1, 1]"
proof -
  let ?g = "generate_signals (calculate_moving_averages (frame_of prices52))"
  have cl: "length (close ?g) = 52"
    by (simp add: close_generate_signals SMA_calculate_moving_averages close_frame_of
        length_prices52)
  have p0: "Position ?g = replicate 52 0"
    by (simp add: Position_generate_signals SMA_calculate_moving_averages close_frame_of
        length_prices52)
  have split: "[1..<52] = [1..<50] @ [50, 51]"
    using upt_add_eq_append [of 1 50 2] by (simp add: upt_conv_Cons)
  have flat: "\<forall>j \<in> set [1..<50]. j < 52 \<and> Signal ?g ! j = 0"
    by (simp add: Signal52_column nth_append)
  have z: "fold (position_step ?g) [1..<50] (replicate 52 0) = replicate 52 0"
    by (rule fold_position_step_zeros [OF flat])
  have s50: "Signal ?g ! 50 = 1" and s51: "Signal ?g ! 51 = 0"
    by (simp_all add: Signal52)
  have "fold (position_step ?g) [1..<52] (replicate 52 0) = (replicate 52 0)[50 := 1, 51 := 1]"
    unfolding split fold_append comp_def z
    by (simp add: position_step_def s50 s51)
  also have "\<dots> = replicate 50 0 @ [1, 1]"
    using replicate_add [of 50 2 "0::int"] by (simp add: list_update_append numeral_2_eq_2)
  finally show ?thesis
    by (simp add: update_position_def cl p0)
qed


lemma pct_change_prices52:
  "pct_change prices52 =
     NaN # replicate 29 (Fin 0) @ [Fin (- 1 / 10)] @ replicate 19 (Fin 0)
       @ [Fin (91 / 9), Fin (1 / 10)]"
  by (simp add: prices52_def pct_change_def ffill_def shift1_def fsub_def eval_nat_numeral)

lemma Strategy_Returns52:
  "Strategy_Returns (calculate_returns (update_position
      (generate_signals (calculate_moving_averages (frame_of prices52))))) =
     NaN # replicate 50 (Fin 0) @ [Fin (1 / 10)]"
proof -
  let ?u = "update_position (generate_signals (calculate_moving_averages (frame_of prices52)))"
  have cl: "close ?u = prices52"
    by (simp add: close_update_position close_generate_signals SMA_calculate_moving_averages
        close_frame_of)
  have pos: "map (\<lambda>p. Fin (real_of_int p)) (replicate 50 0 @ [1, 1]) =
             replicate 50 (Fin 0) @ [Fin 1, Fin 1]"
    by simp
  have sh: "shift1 (replicate 50 (Fin 0) @ [Fin 1, Fin 1]) =
            NaN # replicate 50 (Fin 0) @ [Fin 1]"
    by (simp add: shift1_def eval_nat_numeral)
  have m: "map2 fmul
          (NaN # replicate 29 (Fin 0) @ [Fin (- 1 / 10)] @ replicate 19 (Fin 0)
             @ [Fin (91 / 9), Fin (1 / 10)])
          (NaN # replicate 50 (Fin 0) @ [Fin 1]) =
        NaN # replicate 50 (Fin 0) @ [Fin (1 / 10)]"
    by (simp add: eval_nat_numeral)
  have "Strategy_Returns (calculate_returns ?u) =
        map2 fmul (pct_change (close ?u))
          (shift1 (map (\<lambda>p. Fin (real_of_int p)) (Position ?u)))"
    by (simp add: calculate_returns_def Let_def)
  also have "\<dots> = NaN # replicate 50 (Fin 0) @ [Fin (1 / 10)]"
    unfolding cl pct_change_prices52 Position52_column pos sh m ..
  finally show ?thesis .
qed

lemma series_prod52:
  "series_prod (map (fadd (Fin 1)) (NaN # replicate 50 (Fin 0) @ [Fin (1 / 10)])) = Fin (11 / 10)"
proof -
  have f: "fold (\<lambda>x acc. fmul acc x) (replicate n (Fin 1)) (Fin 1) = Fin 1" for n
    by (induction n) simp_all
  have "dropna (map (fadd (Fin 1)) (NaN # replicate 50 (Fin 0) @ [Fin (1 / 10)])) =
        replicate 50 (Fin 1) @ [Fin (11 / 10)]"
    by (simp add: dropna_def)
  then show ?thesis
    by (simp add: series_prod_def f del: fold_replicate)
qed

lemma powr_ne52: "(11 / 10) powr (6125 / 52) \<noteq> (11 / 10) powr (6125 / (51::real))"
proof
  assume "(11 / 10) powr (6125 / 52) = (11 / 10) powr (6125 / (51::real))"
  then have "(6125 / 52 :: real) = 6125 / 51"
    by (subst (asm) powr_inj) simp_all
  then show False by simp
qed

text \<open>
  C7, on the whole pipeline of \<open>backtest_ma.py\<close> at the series
  \<open>prices52\<close>. The position is held from bar 50, so the strategy returns are
  \<open>NaN\<close> at bar 0, 0.1 at bar 51 and 0 between: 51 defined returns with the
  product 1.1. The code raises it to \<open>6125 / len(stock_data) = 6125 / 52\<close>,
  counting the undefined first return, where the specification's exponent is
  \<open>6125 / 51\<close>; the two annualized returns differ.
\<close>

theorem run_strategy_exponent_counts_bars:
  "Strategy_Returns (calculate_returns (update_position (generate_signals
      (calculate_moving_averages (load_and_prepare_data (map (Pair ''S'') prices52) ''S''))))) =
     NaN # replicate 50 (Fin 0) @ [Fin (1 / 10)]
   \<and> field ''Annualized Strategy Returns'' (run_strategy (map (Pair ''S'') prices52) ''S'') =
       Some (Fin ((11 / 10) powr (6125 / 52) - 1))
   \<and> annualized_return_spec (NaN # replicate 50 (Fin 0) @ [Fin (1 / 10)]) =
       Fin ((11 / 10) powr (6125 / 51) - 1)
   \<and> Fin ((11 / 10) powr (6125 / 52) - 1) \<noteq> Fin ((11 / 10) powr (6125 / 51) - 1)"
proof -
  let ?r = "calculate_returns (update_position (generate_signals
      (calculate_moving_averages (frame_of prices52))))"
  have cl: "length (close ?r) = 52"
    by (simp add: close_calculate_returns close_update_position close_generate_signals
        SMA_calculate_moving_averages close_frame_of length_prices52)
  have a: "annualized (Strategy_Returns ?r) (length (close ?r)) =
           Inr (Fin ((11 / 10) powr (6125 / 52) - 1))"
    unfolding cl Strategy_Returns52 annualized_def series_prod52
    by (simp add: np_power_def fsub_def)
  obtain v where b: "annualized (Stock_Returns ?r) (length (close ?r)) = Inr v"
    using annualized_Inr [of 52] unfolding cl by auto
  have f: "field ''Annualized Strategy Returns'' (run_strategy (map (Pair ''S'') prices52) ''S'') =
       Some (Fin ((11 / 10) powr (6125 / 52) - 1))"
    by (simp add: run_strategy_def load_and_prepare_data_single field_def
        calculate_performance_metrics_def a b Let_def)
  have dn: "dropna (NaN # replicate 50 (Fin 0) @ [Fin (1 / 10)]) =
            replicate 50 (Fin 0) @ [Fin (1 / 10)]"
    by (simp add: dropna_def)
  have sp: "series_prod (map (fadd (Fin 1)) (replicate 50 (Fin 0) @ [Fin (1 / 10)])) =
            Fin (11 / 10)"
    using series_prod52 by (simp add: series_prod_def dropna_def)
  have s: "annualized_return_spec (NaN # replicate 50 (Fin 0) @ [Fin (1 / 10)]) =
       Fin ((11 / 10) powr (6125 / 51) - 1)"
    unfolding annualized_return_spec_def dn sp
    by (simp add: np_power_def fsub_def)
  from Strategy_Returns52 f s powr_ne52 show ?thesis
    by (simp add: load_and_prepare_data_single)
qed


text \<open>
  A sell after a hold bar reads the invested capital of the bar before, which the loop
  has left unset: the cash becomes \<open>NaN\<close>, and so does the portfolio value.
\<close>

lemma simulate_trades_sell_after_hold:
  "portfolio_columns (simulate_trades
      ((frame_of [Fin 10, Fin 10, Fin 10, Fin 10])\<lparr>Signal := [0, 1, 0, - 1]\<rparr>) (Fin 100))
     = Inr ([Fin 100, Fin 100, Fin 0, NaN],
            [Fin 0, Fin 100, Fin 100, Fin 0],
            [NaN, Fin 0, Fin (- 1), NaN])
   \<and> cash_at ((frame_of [Fin 10, Fin 10, Fin 10, Fin 10])\<lparr>Signal := [0, 1, 0, - 1]\<rparr>)
        (Fin 100) 3 = NaN"
  by (simp add: portfolio_columns_def simulate_trades_def cash_at_def trade_loop_def
      trade_step_def frame_of_def pct_change_def ffill_def shift1_def fsub_def upt_conv_Cons
      eval_nat_numeral)

section \<open>The position size in a run with one buy\<close>

lemma sample_std_nonneg: "0 \<le> sample_std rs"
proof -
  have "0 \<le> (\<Sum>r\<leftarrow>rs. (r - sum_list rs / real (length rs))\<^sup>2)"
    by (rule sum_list_nonneg) auto
  then show ?thesis
    by (simp add: sample_std_def Let_def)
qed

lemma rolling_std_entries:
  assumes "x \<in> set (rolling_std W xs)"
  shows "x = NaN \<or> (\<exists>s. x = Fin s \<and> 0 \<le> s)"
  using assms sample_std_nonneg
  by (auto simp: rolling_std_def Let_def split: if_splits)

lemma Volatility_entries:
  assumes "x \<in> set (Volatility (calculate_volatility df w))"
  shows "x = NaN \<or> (\<exists>s. x = Fin s \<and> 0 \<le> s)"
proof -
  from assms obtain y where y: "y \<in> set (rolling_std w (pct_change (close df)))"
      "x = fmul y (Fin (sqrt 6125))"
    by (auto simp: calculate_volatility_def Let_def)
  from rolling_std_entries [OF y(1)] show ?thesis
  proof
    assume "y = NaN"
    then show ?thesis by (simp add: y(2))
  next
    assume "\<exists>s. y = Fin s \<and> 0 \<le> s"
    then obtain s where "y = Fin s" "0 \<le> s" by blast
    then show ?thesis by (simp add: y(2))
  qed
qed

lemma fold_fmax_Fin:
  assumes "\<forall>x \<in> set vs. isfinite x"
  shows "\<exists>M. fold (\<lambda>x acc. fmax acc x) vs (Fin a) = Fin M \<and> a \<le> M
           \<and> (\<forall>v. Fin v \<in> set vs \<longrightarrow> v \<le> M)"
  using assms
proof (induction vs arbitrary: a)
  case Nil
  then show ?case by simp
next
  case (Cons x vs)
  then obtain b where b: "x = Fin b" by (cases x) auto
  have fm: "fmax (Fin a) (Fin b) = Fin (max a b)" by (simp add: fmax_def max_def)
  from Cons.prems have "\<forall>x \<in> set vs. isfinite x" by simp
  from Cons.IH [OF this, of "max a b"]
  obtain M where M: "fold (\<lambda>x acc. fmax acc x) vs (Fin (max a b)) = Fin M" "max a b \<le> M"
      "\<forall>v. Fin v \<in> set vs \<longrightarrow> v \<le> M"
    by blast
  then show ?case by (auto simp: b fm)
qed

lemma series_max_ge:
  assumes "\<forall>x \<in> set xs. x = NaN \<or> isfinite x" and "Fin v \<in> set xs"
  shows "\<exists>M. series_max xs = Fin M \<and> v \<le> M"
proof -
  have fin: "\<forall>x \<in> set (dropna xs). isfinite x"
    using assms(1) by (auto simp: dropna_def)
  have mem: "Fin v \<in> set (dropna xs)"
    using assms(2) by (simp add: dropna_def)
  then obtain y ys where d: "dropna xs = y # ys" by (cases "dropna xs") auto
  with fin obtain a where a: "y = Fin a" by (cases y) auto
  from fin d have "\<forall>x \<in> set ys. isfinite x" by simp
  from fold_fmax_Fin [OF this, of a]
  obtain M where M: "fold (\<lambda>x acc. fmax acc x) ys (Fin a) = Fin M" "a \<le> M"
      "\<forall>v. Fin v \<in> set ys \<longrightarrow> v \<le> M"
    by blast
  from mem d a M have "v \<le> M" by auto
  with M(1) show ?thesis by (auto simp: series_max_def d a)
qed


lemma rolling_std_nth:
  "i < length xs \<Longrightarrow> rolling_std W xs ! i =
     (let w = filter isfinite (map (\<lambda>j. prep_values xs ! j) [i + 1 - W..<i + 1])
      in if W \<le> length w \<and> 1 < length w then Fin (sample_std (map realpart w)) else NaN)"
  by (simp add: rolling_std_def Let_def length_prep_values)

lemma length_pct_change_prices52: "length (pct_change prices52) = 52"
  by (simp add: length_pct_change length_prices52)

lemma window52:
  "filter isfinite (map (\<lambda>j. prep_values (pct_change prices52) ! j) [32..<52]) =
     replicate 18 (Fin 0) @ [Fin (91 / 9), Fin (1 / 10)]"
  by (simp add: pct_change_prices52 prep_values_def upt_conv_Cons eval_nat_numeral)

lemma rolling_std52_last:
  "rolling_std 20 (pct_change prices52) ! 51 =
     Fin (sample_std (replicate 18 0 @ [91 / 9, 1 / 10]))"
proof -
  have "rolling_std 20 (pct_change prices52) ! 51 =
     (let w = filter isfinite (map (\<lambda>j. prep_values (pct_change prices52) ! j) [32..<52])
      in if 20 \<le> length w \<and> 1 < length w then Fin (sample_std (map realpart w)) else NaN)"
    using rolling_std_nth [of 51 "pct_change prices52" 20]
    by (simp add: length_pct_change_prices52)
  then show ?thesis
    unfolding window52 by (simp add: Let_def)
qed

lemma sample_std52_ge1: "1 \<le> sample_std (replicate 18 0 @ [91 / 9, 1 / 10])"
proof -
  have "(1::real) \<le> (18 * (919 / 1800)\<^sup>2 + (91 / 9 - 919 / 1800)\<^sup>2
           + (1 / 10 - 919 / 1800)\<^sup>2) / 19"
    by (simp add: power2_eq_square)
  moreover have "sample_std (replicate 18 0 @ [91 / 9, 1 / 10]) =
      sqrt ((18 * (919 / 1800)\<^sup>2 + (91 / 9 - 919 / 1800)\<^sup>2
           + (1 / 10 - 919 / 1800)\<^sup>2) / 19)"
    by (simp add: sample_std_def Let_def sum_list_replicate comp_def)
  ultimately show ?thesis by simp
qed


lemma sqrt6125_ge1: "1 \<le> sqrt 6125"
  by simp

text \<open>
  C3, on the whole pipeline of the portfolio variant at the series \<open>prices52\<close>
  with the initial capital 100000. The sizer writes a finite position size between 0 and
  10000 to every bar. At the buy of bar 50 the cash is 100000; the simulator commits all
  of it, the invested capital of the bar is 100000 and the cash left is 0: the amount
  committed is not the position size capped at the cash.
\<close>

theorem buy_commits_whole_cash_not_position_size:
  "\<exists>df1 p. adjust_position_size
        (generate_signals (calculate_moving_averages
          (load_and_prepare_data (map (Pair ''S'') prices52) ''S'')))
        (Fin 100000) (Fin (1 / 10)) = Inr df1
     \<and> Position_Size df1 = replicate 52 (Fin p) \<and> 0 < p \<and> p \<le> 10000
     \<and> Signal df1 ! 50 = 1
     \<and> cash_at df1 (Fin 100000) 49 = Fin 100000
     \<and> cash_at df1 (Fin 100000) 50 = Fin 0
     \<and> portfolio_columns (simulate_trades df1 (Fin 100000)) =
         Inr (replicate 51 (Fin 100000) @ [Fin 0],
              replicate 50 (Fin 0) @ [Fin 100000, Fin 100000],
              NaN # replicate 50 (Fin 0) @ [Fin (- 1)])"
proof -
  let ?g = "generate_signals (calculate_moving_averages (frame_of prices52))"
  let ?K = "sqrt 6125"
  let ?s = "sample_std (replicate 18 0 @ [91 / 9, 1 / 10])"
  have ne: "close ?g \<noteq> []" unfolding close52 by (simp add: prices52_def)
  from adjust_position_size_Inr [OF ne]
  obtain df1 where df1: "adjust_position_size ?g (Fin 100000) (Fin (1 / 10)) = Inr df1" by blast
  note k = adjust_position_size_keeps [OF df1]
  note r = adjust_position_size_result [OF df1]
  have vol: "Volatility df1 =
      map (\<lambda>s. fmul s (Fin ?K)) (rolling_std 20 (pct_change prices52))"
    by (simp add: r(1) calculate_volatility_def Let_def close52)
  have lv: "length (Volatility df1) = 52"
    by (simp add: vol length_rolling_std length_pct_change_prices52)
  then have nev: "Volatility df1 \<noteq> []" by auto
  have "last (Volatility df1) = Volatility df1 ! (length (Volatility df1) - 1)"
    by (rule last_conv_nth [OF nev])
  also have "\<dots> = Volatility df1 ! 51"
    by (simp add: lv)
  also have "\<dots> = fmul (rolling_std 20 (pct_change prices52) ! 51) (Fin ?K)"
    by (simp add: vol length_rolling_std length_pct_change_prices52)
  also have "\<dots> = Fin (?s * ?K)"
    by (simp add: rolling_std52_last)
  finally have last: "last (Volatility df1) = Fin (?s * ?K)" .
  have v1: "1 \<le> ?s * ?K"
    using sample_std52_ge1 sqrt6125_ge1 by (metis mult_mono' mult_1 zero_le_one)
  have "Fin (?s * ?K) \<in> set (Volatility df1)"
    using last last_in_set [OF nev] by simp
  moreover have "\<forall>x \<in> set (Volatility df1). x = NaN \<or> isfinite x"
  proof
    fix x
    assume "x \<in> set (Volatility df1)"
    then have "x \<in> set (Volatility (calculate_volatility ?g 20))" by (simp only: r(1))
    from Volatility_entries [OF this] show "x = NaN \<or> isfinite x" by auto
  qed
  ultimately obtain M where M: "series_max (Volatility df1) = Fin M" "?s * ?K \<le> M"
    using series_max_ge by blast
  define v where "v = ?s * ?K"
  define p where "p = 10000 * (1 / v / M)"
  from v1 M(2) have v1': "1 \<le> v" and M1: "1 \<le> M" by (simp_all add: v_def)
  have vM: "1 \<le> v * M"
    using mult_mono [of 1 v 1 M] v1' M1 by simp
  have pos: "0 < p"
    using v1' M1 by (simp add: p_def)
  have "1 / v / M = 1 / (v * M)" by simp
  also have "\<dots> \<le> 1" using vM by simp
  finally have le: "p \<le> 10000" by (simp add: p_def)
  have ps: "Position_Size df1 = replicate 52 (Fin p)"
    using v1' M1 by (simp add: r(2) last M(1) close52 length_prices52 p_def v_def [symmetric])
  have s50: "Signal df1 ! 50 = 1"
    by (simp add: k(1) Signal52)
  have c49: "cash_at df1 (Fin 100000) 49 = Fin 100000"
    by (simp add: cash_at_def trade_loop_cong [OF k] trade_loop52_before_buy)
  have c50: "cash_at df1 (Fin 100000) 50 = Fin 0"
    by (simp add: cash_at_def trade_loop_cong [OF k] trade_loop52_after_buy)
  have pc: "portfolio_columns (simulate_trades df1 (Fin 100000)) =
         Inr (replicate 51 (Fin 100000) @ [Fin 0],
              replicate 50 (Fin 0) @ [Fin 100000, Fin 100000],
              NaN # replicate 50 (Fin 0) @ [Fin (- 1)])"
    using simulate_trades_cong [OF k, of "Fin 100000"] by (simp add: portfolio_columns52)
  from df1 ps pos le s50 c49 c50 pc show ?thesis
    by (simp add: load_and_prepare_data_single)
qed

end
